theory Spec2Isabelle
  imports Complex_Main
begin

section \<open>Python values and errors\<close>

text \<open>
  Exceptions of the evaluation script are values: every function that can raise returns
  \<open>error + 'a\<close>, with \<open>Inl\<close> for the exception. \<open>CollaboratorError\<close> stands for whatever an
  external collaborator (model, tokenizer, feature converter) raises.
\<close>

datatype error =
    FileNotFoundError
  | IndexError
  | KeyError
  | ValueError
  | AxisError
  | ZeroDivisionError
  | AssertionError
  | RuntimeError
  | CollaboratorError string

definition ebind :: "error + 'a \<Rightarrow> ('a \<Rightarrow> error + 'b) \<Rightarrow> error + 'b" where
  "ebind m f = (case m of Inl e \<Rightarrow> Inl e | Inr x \<Rightarrow> f x)"

text \<open>\<open>xs[i]\<close> for a non-negative literal index: IndexError out of range.\<close>

definition getitem :: "'a list \<Rightarrow> nat \<Rightarrow> error + 'a" where
  "getitem xs i = (if i < length xs then Inr (xs ! i) else Inl IndexError)"

text \<open>\<open>str(i)\<close> of a non-negative integer: its decimal digits.\<close>

definition digit_char :: "nat \<Rightarrow> char" where
  "digit_char d = ''0123456789'' ! d"

fun str_nat :: "nat \<Rightarrow> string" where
  "str_nat n = (if n < 10 then [digit_char n] else str_nat (n div 10) @ [digit_char (n mod 10)])"

declare str_nat.simps [simp del]

text \<open>\<open>sub in s\<close> on strings: \<open>sub\<close> occurs as a contiguous substring of \<open>s\<close>.\<close>

fun startswith :: "string \<Rightarrow> string \<Rightarrow> bool" where
  "startswith s [] = True"
| "startswith [] (p # ps) = False"
| "startswith (c # s) (p # ps) = (c = p \<and> startswith s ps)"

fun str_contains :: "string \<Rightarrow> string \<Rightarrow> bool" where
  "str_contains sub [] = (sub = [])"
| "str_contains sub (c # s) = (startswith (c # s) sub \<or> str_contains sub s)"

text \<open>\<open>os.path.join(a, b)\<close> on a POSIX system, for two components.\<close>

definition os_path_join :: "string \<Rightarrow> string \<Rightarrow> string" where
  "os_path_join a b =
     (if startswith b ''/'' then b
      else if a = [] \<or> last a = CHR ''/'' then a @ b
      else a @ ''/'' @ b)"

section \<open>Examples and processors\<close>

record InputExample =
  guid :: string
  text_a :: string
  text_b :: "string option"
  label :: "string option"

record InputFeatures =
  f_input_ids :: "int list"
  f_input_mask :: "int list"
  f_segment_ids :: "int list"
  f_label_id :: int

text \<open>
  The features of the extended loader carry one more attribute, \<open>f.ambiguity\<close>
  (read at the construction of \<open>ambiguity_scores\<close> in \<open>load_and_cache_examples\<close>).
\<close>

record AmbFeatures = InputFeatures +
  f_ambiguity :: int

text \<open>
  The three processors of the \<open>processors\<close> table of \<open>load_and_cache_examples\<close>:
  variant A (\<open>"old"\<close>) is \<open>ColaProcessor\<close>, variant B (\<open>"new_clean"\<close>) is
  \<open>DumbProcessorClean\<close>, variant C (\<open>"new"\<close>) is \<open>DumbProcessor\<close>.
\<close>

datatype processor = ColaProcessor | DumbProcessorClean | DumbProcessor

fun train_file :: "processor \<Rightarrow> string" where
  "train_file ColaProcessor = ''train.tsv''"
| "train_file DumbProcessorClean = ''train_clean.tsv''"
| "train_file DumbProcessor = ''train_wordnet_amb.tsv''"

fun dev_file :: "processor \<Rightarrow> string" where
  "dev_file ColaProcessor = ''dev.tsv''"
| "dev_file DumbProcessorClean = ''dev_clean.tsv''"
| "dev_file DumbProcessor = ''dev_wordnet_amb.tsv''"

fun get_labels :: "processor \<Rightarrow> string list" where
  "get_labels ColaProcessor = [''0'', ''1'']"
| "get_labels DumbProcessorClean = [''0'', ''1'']"
| "get_labels DumbProcessor = [''0'', ''1'']"

text \<open>
  \<open>_create_examples\<close>: the loop \<open>for (i, line) in enumerate(lines)\<close>, with the row counter
  and the list built so far as arguments. \<open>line[3]\<close> is read before \<open>line[1]\<close>; either
  raises IndexError on a short row, and the exception leaves the loop. The bodies of the
  method in the three classes are the same text, so one loop serves the three.
\<close>

fun create_examples_loop ::
  "string \<Rightarrow> nat \<Rightarrow> string list list \<Rightarrow> InputExample list \<Rightarrow> error + InputExample list" where
  "create_examples_loop set_type i [] examples = Inr examples"
| "create_examples_loop set_type i (line # lines) examples =
     ebind (getitem line 3) (\<lambda>ta.
     ebind (getitem line 1) (\<lambda>lb.
       create_examples_loop set_type (Suc i) lines
         (examples @ [\<lparr>guid = set_type @ ''-'' @ str_nat i, text_a = ta,
                       text_b = None, label = Some lb\<rparr>])))"

fun create_examples :: "processor \<Rightarrow> string list list \<Rightarrow> string \<Rightarrow> error + InputExample list" where
  "create_examples ColaProcessor lines set_type = create_examples_loop set_type 0 lines []"
| "create_examples DumbProcessorClean lines set_type = create_examples_loop set_type 0 lines []"
| "create_examples DumbProcessor lines set_type = create_examples_loop set_type 0 lines []"

text \<open>
  \<open>_read_tsv\<close> opens the file and hands it to the \<open>csv\<close> reader. The file system is a map
  from paths to the rows the reader yields (each row a list of cells); a path outside its
  domain is a missing file.
\<close>

type_synonym filesystem = "string \<Rightarrow> string list list option"

definition read_tsv :: "filesystem \<Rightarrow> string \<Rightarrow> error + string list list" where
  "read_tsv fs input_file = (case fs input_file of None \<Rightarrow> Inl FileNotFoundError | Some lines \<Rightarrow> Inr lines)"

definition get_train_examples :: "processor \<Rightarrow> filesystem \<Rightarrow> string \<Rightarrow> error + InputExample list" where
  "get_train_examples p fs data_dir =
     ebind (read_tsv fs (os_path_join data_dir (train_file p))) (\<lambda>lines.
       create_examples p lines ''train'')"

definition get_dev_examples :: "processor \<Rightarrow> filesystem \<Rightarrow> string \<Rightarrow> error + InputExample list" where
  "get_dev_examples p fs data_dir =
     ebind (read_tsv fs (os_path_join data_dir (dev_file p))) (\<lambda>lines.
       create_examples p lines ''dev'')"

text \<open>
  The example the loop body builds from row \<open>i\<close> when the row is long enough.
\<close>

definition example_of :: "string \<Rightarrow> nat \<Rightarrow> string list \<Rightarrow> InputExample" where
  "example_of set_type i line =
     \<lparr>guid = set_type @ ''-'' @ str_nat i, text_a = line ! 3, text_b = None,
      label = Some (line ! 1)\<rparr>"

section \<open>The command line\<close>

record args =
  data_dir :: string
  max_seq_length :: int
  eval_batch_size :: int
  old_load :: bool
  use_clean_data :: bool
  bert_base :: bool
  model_weights :: string

text \<open>
  \<open>main\<close>: the ambiguity function and the task name are read off \<open>args.model_weights\<close>
  by two \<open>if\<close>/\<open>elif\<close> chains.
\<close>

definition infer_ambiguity_fn :: "args \<Rightarrow> string" where
  "infer_ambiguity_fn a =
     (if str_contains ''_csi_'' (model_weights a) then ''csi''
      else if str_contains ''_wn_'' (model_weights a) then ''wn''
      else if str_contains ''_tf-idf_'' (model_weights a) then ''tf-idf''
      else ''none'')"

definition infer_task_name :: "args \<Rightarrow> string" where
  "infer_task_name a =
     (if str_contains ''new_clean'' (model_weights a) then ''new_clean''
      else if str_contains ''new'' (model_weights a) then ''new''
      else ''old'')"

section \<open>Tensors and the assembled dataset\<close>

text \<open>
  \<open>torch.tensor(rows, dtype=torch.long)\<close>. The shape is read off the first row; the rows
  are then stored one after the other: a row whose length is not that of the first row is
  a ValueError, and an entry of the row that does not fit a signed 64-bit integer is a
  RuntimeError. The first offending row decides the error. A tensor is kept as the list
  of its rows along dimension 0.
\<close>

definition fits_long :: "int \<Rightarrow> bool" where
  "fits_long v \<longleftrightarrow> - (2 ^ 63) \<le> v \<and> v < 2 ^ 63"

definition torch_tensor_1d :: "int list \<Rightarrow> error + int list" where
  "torch_tensor_1d xs = (if list_all fits_long xs then Inr xs else Inl RuntimeError)"

fun store_rows :: "nat \<Rightarrow> int list list \<Rightarrow> error option" where
  "store_rows width [] = None"
| "store_rows width (row # rows) =
     (if length row \<noteq> width then Some ValueError
      else if \<not> list_all fits_long row then Some RuntimeError
      else store_rows width rows)"

definition torch_tensor_2d :: "int list list \<Rightarrow> error + int list list" where
  "torch_tensor_2d rows =
     (case rows of
        [] \<Rightarrow> Inr []
      | first # rest \<Rightarrow>
          (case store_rows (length first) rows of Some e \<Rightarrow> Inl e | None \<Rightarrow> Inr rows))"

text \<open>
  \<open>TensorDataset(*tensors)\<close> as \<open>load_and_cache_examples\<close> builds it: the first four
  tensors are always there (ids, masks, segment ids, labels); the fifth (ambiguity scores)
  only in the extended loader, so it is optional and \<open>batch[4]\<close> on a four-tensor dataset
  is an index out of range. The constructor asserts that all tensors agree on their
  first dimension; \<open>len\<close> is the first dimension of the first tensor.
\<close>

record TensorDataset =
  t_input_ids :: "int list list"
  t_input_masks :: "int list list"
  t_token_type_ids :: "int list list"
  t_labels :: "int list"
  t_ambiguity :: "int list option"

definition ds_len :: "TensorDataset \<Rightarrow> nat" where
  "ds_len ds = length (t_input_ids ds)"

definition same_first_dim :: "TensorDataset \<Rightarrow> bool" where
  "same_first_dim ds \<longleftrightarrow>
     length (t_input_masks ds) = length (t_input_ids ds) \<and>
     length (t_token_type_ids ds) = length (t_input_ids ds) \<and>
     length (t_labels ds) = length (t_input_ids ds) \<and>
     (case t_ambiguity ds of None \<Rightarrow> True | Some a \<Rightarrow> length a = length (t_input_ids ds))"

definition tensor_dataset :: "TensorDataset \<Rightarrow> error + TensorDataset" where
  "tensor_dataset ds = (if same_first_dim ds then Inr ds else Inl AssertionError)"

section \<open>External collaborators\<close>

datatype tensor = Tensor1 "int list" | Tensor2 "int list list"

text \<open>
  What the model returns: \<open>outputs[:2]\<close> is the loss tensor (its elements; one element for
  a scalar loss) and the logits, one row of class scores per batch row. Floating-point
  numbers are real numbers here: rounding and NaN are not modelled.
\<close>

record model_output =
  out_loss :: "real list"
  out_logits :: "real list list"

text \<open>
  The functions this file imports from modules outside it are parameters of the
  development: the feature converter \<open>convert_examples_new\<close> (with the tokenizer it is
  called with), the extended dataset with its converter (\<open>HumorDetectionDataset\<close> followed
  by \<open>convert_dataset_to_features\<close>; arguments: data directory, maximal length, split name,
  ambiguity function, clean-data flag), the model called on the keyword bundle, and the
  three scikit-learn scores (gold labels first, predictions second).
\<close>

record collaborators =
  convert_examples_new :: "InputExample list \<Rightarrow> string list \<Rightarrow> int \<Rightarrow> error + InputFeatures list"
  humor_features :: "string \<Rightarrow> int \<Rightarrow> string \<Rightarrow> string \<Rightarrow> bool \<Rightarrow> error + AmbFeatures list"
  model_call :: "(string \<rightharpoonup> tensor) \<Rightarrow> error + model_output"
  f1_score :: "int list option \<Rightarrow> nat list \<Rightarrow> error + real"
  precision_score :: "int list option \<Rightarrow> nat list \<Rightarrow> error + real"
  recall_score :: "int list option \<Rightarrow> nat list \<Rightarrow> error + real"

section \<open>Loading the dataset\<close>

text \<open>
  The truth value of a Python object, as far as the names of this file need it. The name
  \<open>evaluate\<close> inside \<open>load_and_cache_examples\<close> is neither a parameter nor a local
  variable: it is the module-level function \<open>evaluate\<close>, and a function object is true.
\<close>

datatype pyobject = PyNone | PyBool bool | PyFunction string

fun truthy :: "pyobject \<Rightarrow> bool" where
  "truthy PyNone = False"
| "truthy (PyBool b) = b"
| "truthy (PyFunction f) = True"

definition global_evaluate :: pyobject where
  "global_evaluate = PyFunction ''evaluate''"

definition processors :: "string \<rightharpoonup> processor" where
  "processors = [''old'' \<mapsto> ColaProcessor, ''new_clean'' \<mapsto> DumbProcessorClean,
                 ''new'' \<mapsto> DumbProcessor]"

definition load_and_cache_examples ::
  "collaborators \<Rightarrow> filesystem \<Rightarrow> args \<Rightarrow> string \<Rightarrow> string \<Rightarrow> error + TensorDataset" where
  "load_and_cache_examples c fs a ambiguity_fn task_name =
     (if old_load a then
        (case processors task_name of
           None \<Rightarrow> Inl KeyError
         | Some processor \<Rightarrow>
             ebind (if \<not> truthy global_evaluate
                    then get_train_examples processor fs (data_dir a)
                    else get_dev_examples processor fs (data_dir a)) (\<lambda>examples.
             ebind (convert_examples_new c examples (get_labels processor) (max_seq_length a))
               (\<lambda>features.
             ebind (torch_tensor_2d (map f_input_ids features)) (\<lambda>input_ids.
             ebind (torch_tensor_2d (map f_input_mask features)) (\<lambda>input_masks.
             ebind (torch_tensor_2d (map f_segment_ids features)) (\<lambda>token_type_ids.
             ebind (torch_tensor_1d (map f_label_id features)) (\<lambda>labels.
               tensor_dataset
                 \<lparr>t_input_ids = input_ids, t_input_masks = input_masks,
                  t_token_type_ids = token_type_ids, t_labels = labels,
                  t_ambiguity = None\<rparr>)))))))
      else
        ebind (humor_features c (data_dir a) (max_seq_length a) ''test'' ambiguity_fn
                 (use_clean_data a)) (\<lambda>features.
        ebind (torch_tensor_2d (map f_input_ids features)) (\<lambda>input_ids.
        ebind (torch_tensor_2d (map f_input_mask features)) (\<lambda>input_masks.
        ebind (torch_tensor_2d (map f_segment_ids features)) (\<lambda>token_type_ids.
        ebind (torch_tensor_1d (map f_ambiguity features)) (\<lambda>ambiguity_scores.
        ebind (torch_tensor_1d (map f_label_id features)) (\<lambda>labels.
          tensor_dataset
            \<lparr>t_input_ids = input_ids, t_input_masks = input_masks,
             t_token_type_ids = token_type_ids, t_labels = labels,
             t_ambiguity = Some ambiguity_scores\<rparr>)))))))"

section \<open>Sequential batching\<close>

text \<open>
  \<open>DataLoader(eval_data, sampler=SequentialSampler(eval_data), batch_size=...)\<close>.
  The sequential sampler yields \<open>0, ..., len - 1\<close>. The batch sampler (built by the
  loader, \<open>drop_last\<close> false) refuses a batch size that is not positive with a ValueError;
  it appends each index to the pending batch, yields the batch when it has
  \<open>batch_size\<close> indices, and at the end yields a non-empty remainder. The default
  collation fetches the dataset rows of a batch's indices and stacks them field by field.
\<close>

definition sequential_sampler :: "TensorDataset \<Rightarrow> nat list" where
  "sequential_sampler ds = [0..<ds_len ds]"

fun batch_sampler :: "nat \<Rightarrow> nat list \<Rightarrow> nat list \<Rightarrow> nat list list" where
  "batch_sampler batch_size batch [] = (if batch \<noteq> [] then [batch] else [])"
| "batch_sampler batch_size batch (idx # rest) =
     (if length (batch @ [idx]) = batch_size
      then (batch @ [idx]) # batch_sampler batch_size [] rest
      else batch_sampler batch_size (batch @ [idx]) rest)"

definition collate :: "TensorDataset \<Rightarrow> nat list \<Rightarrow> TensorDataset" where
  "collate ds idxs =
     \<lparr>t_input_ids = map (\<lambda>i. t_input_ids ds ! i) idxs,
      t_input_masks = map (\<lambda>i. t_input_masks ds ! i) idxs,
      t_token_type_ids = map (\<lambda>i. t_token_type_ids ds ! i) idxs,
      t_labels = map (\<lambda>i. t_labels ds ! i) idxs,
      t_ambiguity = map_option (\<lambda>a. map (\<lambda>i. a ! i) idxs) (t_ambiguity ds)\<rparr>"

definition dataloader :: "TensorDataset \<Rightarrow> int \<Rightarrow> error + TensorDataset list" where
  "dataloader ds batch_size =
     (if batch_size \<le> 0 then Inl ValueError
      else Inr (map (collate ds) (batch_sampler (nat batch_size) [] (sequential_sampler ds))))"

section \<open>Array operations\<close>

text \<open>
  \<open>np.argmax(a, axis=1)\<close>: for each row the first index of its greatest entry. A row with
  no entry is a ValueError. On \<open>None\<close> (the buffers before the first batch) the argument
  becomes a zero-dimensional array, which has no axis 1: an AxisError.
\<close>

fun argmax_from :: "real \<Rightarrow> nat \<Rightarrow> nat \<Rightarrow> real list \<Rightarrow> nat" where
  "argmax_from best best_i i [] = best_i"
| "argmax_from best best_i i (y # ys) =
     (if best < y then argmax_from y i (Suc i) ys else argmax_from best best_i (Suc i) ys)"

definition argmax_row :: "real list \<Rightarrow> error + nat" where
  "argmax_row row = (case row of [] \<Rightarrow> Inl ValueError | x # xs \<Rightarrow> Inr (argmax_from x 0 1 xs))"

fun emap :: "('a \<Rightarrow> error + 'b) \<Rightarrow> 'a list \<Rightarrow> error + 'b list" where
  "emap f [] = Inr []"
| "emap f (x # xs) = ebind (f x) (\<lambda>y. ebind (emap f xs) (\<lambda>ys. Inr (y # ys)))"

definition np_argmax :: "real list list option \<Rightarrow> error + nat list" where
  "np_argmax a = (case a of None \<Rightarrow> Inl AxisError | Some rows \<Rightarrow> emap argmax_row rows)"

text \<open>
  \<open>np.sum(outputs == labels)\<close> on one-dimensional arrays: the comparison is elementwise
  when the lengths agree, broadcasts an operand of length one, and is a ValueError on any
  other pair of lengths. Compared with \<open>None\<close>, no entry is equal.
\<close>

definition count_eq :: "nat list \<Rightarrow> int list \<Rightarrow> nat" where
  "count_eq outputs labels = length (filter (\<lambda>(p, l). int p = l) (zip outputs labels))"

definition np_sum_eq :: "nat list \<Rightarrow> int list option \<Rightarrow> error + nat" where
  "np_sum_eq outputs labels =
     (case labels of
        None \<Rightarrow> Inr 0
      | Some ls \<Rightarrow>
          if length outputs = length ls then Inr (count_eq outputs ls)
          else if length outputs = 1 then Inr (count_eq (replicate (length ls) (hd outputs)) ls)
          else if length ls = 1 then Inr (count_eq outputs (replicate (length outputs) (hd ls)))
          else Inl ValueError)"

text \<open>
  \<open>np.append(a, b, axis=0)\<close> on two-dimensional arrays: the rows of \<open>b\<close> after the rows
  of \<open>a\<close>; a ValueError when the row widths differ.
\<close>

definition np_append_rows :: "real list list \<Rightarrow> real list list \<Rightarrow> error + real list list" where
  "np_append_rows a b =
     (if a \<noteq> [] \<and> b \<noteq> [] \<and> length (hd a) \<noteq> length (hd b) then Inl ValueError
      else Inr (a @ b))"

text \<open>\<open>tmp_eval_loss.mean().item()\<close>: the mean of the elements of the loss tensor.\<close>

definition tensor_mean :: "real list \<Rightarrow> real" where
  "tensor_mean xs = sum_list xs / real (length xs)"

text \<open>True division \<open>a / b\<close> of Python numbers.\<close>

definition py_div :: "real \<Rightarrow> real \<Rightarrow> error + real" where
  "py_div a b = (if b = 0 then Inl ZeroDivisionError else Inr (a / b))"

section \<open>Metrics\<close>

definition accuracy :: "real list list option \<Rightarrow> int list option \<Rightarrow> error + nat" where
  "accuracy out labels = ebind (np_argmax out) (\<lambda>outputs. np_sum_eq outputs labels)"

definition get_metrics ::
  "collaborators \<Rightarrow> real list list option \<Rightarrow> int list option \<Rightarrow> error + (real \<times> real \<times> real)" where
  "get_metrics c logits labels =
     ebind (np_argmax logits) (\<lambda>outputs.
     ebind (f1_score c labels outputs) (\<lambda>f1.
     ebind (precision_score c labels outputs) (\<lambda>prec.
     ebind (recall_score c labels outputs) (\<lambda>recall.
       Inr (f1, prec, recall)))))"

section \<open>The evaluation loop\<close>

text \<open>The variables of \<open>evaluate\<close> that the loop updates.\<close>

record eval_state =
  eval_loss :: real
  eval_accuracy :: nat
  nb_eval_steps :: nat
  nb_eval_examples :: nat
  full_logits :: "real list list option"
  full_labels :: "int list option"

definition init_state :: eval_state where
  "init_state =
     \<lparr>eval_loss = 0, eval_accuracy = 0, nb_eval_steps = 0, nb_eval_examples = 0,
      full_logits = None, full_labels = None\<rparr>"

text \<open>
  The keyword bundle of one batch: four entries always, and \<open>ambiguity_scores\<close> from
  \<open>batch[4]\<close> when \<open>"baseline_"\<close> does not occur in \<open>args.data_dir\<close>.
\<close>

definition build_inputs :: "string \<Rightarrow> TensorDataset \<Rightarrow> error + (string \<rightharpoonup> tensor)" where
  "build_inputs dd batch =
     (let inputs = [''input_ids'' \<mapsto> Tensor2 (t_input_ids batch),
                    ''token_type_ids'' \<mapsto> Tensor2 (t_token_type_ids batch),
                    ''attention_mask'' \<mapsto> Tensor2 (t_input_masks batch),
                    ''labels'' \<mapsto> Tensor1 (t_labels batch)]
      in if \<not> str_contains ''baseline_'' dd
         then (case t_ambiguity batch of
                 None \<Rightarrow> Inl IndexError
               | Some amb \<Rightarrow> Inr (inputs(''ambiguity_scores'' \<mapsto> Tensor1 amb)))
         else Inr inputs)"

text \<open>
  One pass of the loop body. \<open>inputs['labels']\<close> is \<open>batch[3]\<close> and
  \<open>inputs['input_ids'].size(0)\<close> is the number of rows of \<open>batch[0]\<close>.
\<close>

definition eval_step :: "collaborators \<Rightarrow> string \<Rightarrow> TensorDataset \<Rightarrow> eval_state \<Rightarrow> error + eval_state" where
  "eval_step c dd batch s =
     ebind (build_inputs dd batch) (\<lambda>inputs.
     ebind (model_call c inputs) (\<lambda>outputs.
       let logits = out_logits outputs;
           label_ids = t_labels batch;
           new_labels = (case full_labels s of None \<Rightarrow> label_ids | Some fl \<Rightarrow> fl @ label_ids)
       in
       ebind (case full_logits s of None \<Rightarrow> Inr logits | Some fl \<Rightarrow> np_append_rows fl logits)
         (\<lambda>new_logits.
       ebind (accuracy (Some logits) (Some label_ids)) (\<lambda>tmp_eval_accuracy.
         Inr \<lparr>eval_loss = eval_loss s + tensor_mean (out_loss outputs),
              eval_accuracy = eval_accuracy s + tmp_eval_accuracy,
              nb_eval_steps = nb_eval_steps s + 1,
              nb_eval_examples = nb_eval_examples s + length (t_input_ids batch),
              full_logits = Some new_logits,
              full_labels = Some new_labels\<rparr>))))"

fun eval_loop :: "collaborators \<Rightarrow> string \<Rightarrow> TensorDataset list \<Rightarrow> eval_state \<Rightarrow> error + eval_state" where
  "eval_loop c dd [] s = Inr s"
| "eval_loop c dd (batch # batches) s = ebind (eval_step c dd batch s) (eval_loop c dd batches)"

text \<open>
  \<open>evaluate\<close> from the construction of the loader to the returned triple, on the dataset
  that \<open>load_and_cache_examples\<close> returned.
\<close>

definition run_evaluation :: "collaborators \<Rightarrow> args \<Rightarrow> TensorDataset \<Rightarrow> error + (real \<times> real \<times> real)" where
  "run_evaluation c a eval_data =
     ebind (dataloader eval_data (eval_batch_size a)) (\<lambda>batches.
     ebind (eval_loop c (data_dir a) batches init_state) (\<lambda>s.
     ebind (get_metrics c (full_logits s) (full_labels s)) (\<lambda>(eval_f1, eval_precision, eval_recall).
     ebind (accuracy (full_logits s) (full_labels s)) (\<lambda>full_accuracy.
     ebind (py_div (eval_loss s) (real (nb_eval_steps s))) (\<lambda>loss.
     ebind (py_div (real (eval_accuracy s)) (real (nb_eval_examples s))) (\<lambda>acc.
       Inr (loss, acc, eval_f1)))))))"

definition evaluate ::
  "collaborators \<Rightarrow> filesystem \<Rightarrow> args \<Rightarrow> string \<Rightarrow> string \<Rightarrow> error + (real \<times> real \<times> real)" where
  "evaluate c fs a ambiguity_fn task_name =
     ebind (load_and_cache_examples c fs a ambiguity_fn task_name) (run_evaluation c a)"

text \<open>
  What the model returns for one batch, for stating results about a run: the logits, and
  the mean of the loss tensor.
\<close>

definition batch_logits :: "collaborators \<Rightarrow> string \<Rightarrow> TensorDataset \<Rightarrow> real list list" where
  "batch_logits c dd batch =
     (case ebind (build_inputs dd batch) (model_call c) of
        Inl e \<Rightarrow> [] | Inr outputs \<Rightarrow> out_logits outputs)"

definition batch_loss :: "collaborators \<Rightarrow> string \<Rightarrow> TensorDataset \<Rightarrow> real" where
  "batch_loss c dd batch =
     (case ebind (build_inputs dd batch) (model_call c) of
        Inl e \<Rightarrow> 0 | Inr outputs \<Rightarrow> tensor_mean (out_loss outputs))"

section \<open>Specification predicates and example data\<close>

text \<open>
  \<open>rows_as_examples split lines exs\<close>: the examples are the rows of the file, in the order
  of the file and none left out, example \<open>i\<close> with id \<open>"{split}-{i}"\<close>, the text of column 3
  and the label of column 1.
\<close>

definition rows_as_examples :: "string \<Rightarrow> string list list \<Rightarrow> InputExample list \<Rightarrow> bool" where
  "rows_as_examples split lines exs \<longleftrightarrow>
     length exs = length lines \<and>
     (\<forall>i < length lines.
        4 \<le> length (lines ! i) \<and>
        guid (exs ! i) = split @ ''-'' @ str_nat i \<and>
        text_a (exs ! i) = lines ! i ! 3 \<and>
        text_b (exs ! i) = None \<and>
        label (exs ! i) = Some (lines ! i ! 1))"

text \<open>
  \<open>is_first_argmax row k\<close>: \<open>k\<close> is an index of \<open>row\<close>, no entry of the row is greater than
  entry \<open>k\<close>, and every entry before \<open>k\<close> is smaller (the first index of a greatest entry).
\<close>

definition is_first_argmax :: "real list \<Rightarrow> nat \<Rightarrow> bool" where
  "is_first_argmax row k \<longleftrightarrow>
     k < length row \<and> (\<forall>j < length row. row ! j \<le> row ! k) \<and> (\<forall>j < k. row ! j < row ! k)"

text \<open>
  The rows of a buffer of the loop (\<open>full_logits\<close>, \<open>full_labels\<close>): none while it is
  \<open>None\<close>. The predictions for one batch are the row-wise argmax of its logits.
\<close>

definition buf :: "'a list option \<Rightarrow> 'a list" where
  "buf b = (case b of None \<Rightarrow> [] | Some rows \<Rightarrow> rows)"

definition batch_preds :: "collaborators \<Rightarrow> string \<Rightarrow> TensorDataset \<Rightarrow> nat list" where
  "batch_preds c dd batch =
     (case emap argmax_row (batch_logits c dd batch) of Inl e \<Rightarrow> [] | Inr ps \<Rightarrow> ps)"

text \<open>
  Two conditions on the model, which this file calls and does not define.
  \<open>model_shaped\<close>: on the bundle of a batch, the logits have one row per row of the batch.
  \<open>per_row c ds dd g\<close>: whenever the model returns on a batch of rows of \<open>ds\<close>, the logits
  row of dataset element \<open>i\<close> is \<open>g i\<close>, whichever rows share its batch.
\<close>

definition model_shaped :: "collaborators \<Rightarrow> bool" where
  "model_shaped c \<longleftrightarrow>
     (\<forall>dd batch inputs outputs. same_first_dim batch \<longrightarrow>
        build_inputs dd batch = Inr inputs \<longrightarrow>
        model_call c inputs = Inr outputs \<longrightarrow> length (out_logits outputs) = ds_len batch)"

definition per_row :: "collaborators \<Rightarrow> TensorDataset \<Rightarrow> string \<Rightarrow> (nat \<Rightarrow> real list) \<Rightarrow> bool" where
  "per_row c ds dd g \<longleftrightarrow>
     (\<forall>idxs inputs outputs. (\<forall>i \<in> set idxs. i < ds_len ds) \<longrightarrow>
        build_inputs dd (collate ds idxs) = Inr inputs \<longrightarrow>
        model_call c inputs = Inr outputs \<longrightarrow> out_logits outputs = map g idxs)"

text \<open>Two data directories with dev files and no train file; the second row of
  \<open>data/dev.tsv\<close> is short, and \<open>empty/dev_clean.tsv\<close> has no row.\<close>

definition example_fs :: filesystem where
  "example_fs = [''data/dev_wordnet_amb.tsv'' \<mapsto>
      [[''id'', ''1'', ''x'', ''a joke''], [''7'', ''0'', ''y'', ''plain text'', ''extra'']],
      ''data/dev.tsv'' \<mapsto> [[''0'', ''1'', ''a'', ''funny''], [''1'', ''0'']],
      ''data/dev_clean.tsv'' \<mapsto> [[''0'', ''1'', ''a'', ''funny''], [''1'', ''0'', ''b'', ''dull'']],
      ''empty/dev_clean.tsv'' \<mapsto> []]"

text \<open>
  Example collaborators. The converter encodes an example by the length of its text; the
  extended loader yields three fixed features; the classifier scores class 1 with the
  sum of a row's token ids and class 0 with zero, and reports the number of rows of the
  batch as its loss; the scores are the two-class precision, recall and F1 for positive
  class 1, zero where the denominator is zero.
\<close>

definition example_convert :: "InputExample list \<Rightarrow> string list \<Rightarrow> int \<Rightarrow> error + InputFeatures list" where
  "example_convert exs label_list max_len =
     Inr (map (\<lambda>e. \<lparr>f_input_ids = [int (length (text_a e))], f_input_mask = [1],
                      f_segment_ids = [0],
                      f_label_id = (if label e = Some ''1'' then 1 else 0)\<rparr>) exs)"

definition example_humor_features ::
  "string \<Rightarrow> int \<Rightarrow> string \<Rightarrow> string \<Rightarrow> bool \<Rightarrow> error + AmbFeatures list" where
  "example_humor_features dd max_len task ambiguity_fn clean =
     Inr [\<lparr>f_input_ids = [5], f_input_mask = [1], f_segment_ids = [0], f_label_id = 1,
           f_ambiguity = 2\<rparr>,
          \<lparr>f_input_ids = [7], f_input_mask = [1], f_segment_ids = [0], f_label_id = 0,
           f_ambiguity = 0\<rparr>,
          \<lparr>f_input_ids = [3], f_input_mask = [1], f_segment_ids = [0], f_label_id = 1,
           f_ambiguity = 1\<rparr>]"

definition example_model :: "(string \<rightharpoonup> tensor) \<Rightarrow> error + model_output" where
  "example_model inputs =
     (case inputs ''input_ids'' of
        Some (Tensor2 ids) \<Rightarrow>
          Inr \<lparr>out_loss = [real (length ids)],
               out_logits = map (\<lambda>r. [0, real_of_int (sum_list r)]) ids\<rparr>
      | _ \<Rightarrow> Inl (CollaboratorError ''input_ids''))"

definition tp_fp_fn :: "int list \<Rightarrow> nat list \<Rightarrow> nat \<times> nat \<times> nat" where
  "tp_fp_fn ls ps =
     (length (filter (\<lambda>(l, p). l = 1 \<and> p = 1) (zip ls ps)),
      length (filter (\<lambda>(l, p). l \<noteq> 1 \<and> p = 1) (zip ls ps)),
      length (filter (\<lambda>(l, p). l = 1 \<and> p \<noteq> 1) (zip ls ps)))"

definition ratio :: "nat \<Rightarrow> nat \<Rightarrow> real" where
  "ratio a b = (if b = 0 then 0 else real a / real b)"

definition example_score ::
  "(nat \<times> nat \<times> nat \<Rightarrow> real) \<Rightarrow> int list option \<Rightarrow> nat list \<Rightarrow> error + real" where
  "example_score f labels ps =
     (case labels of None \<Rightarrow> Inl ValueError | Some ls \<Rightarrow> Inr (f (tp_fp_fn ls ps)))"

definition example_collab :: collaborators where
  "example_collab =
     \<lparr>convert_examples_new = example_convert,
      humor_features = example_humor_features,
      model_call = example_model,
      f1_score = example_score (\<lambda>(tp, fp, fn). ratio (2 * tp) (2 * tp + fp + fn)),
      precision_score = example_score (\<lambda>(tp, fp, fn). ratio tp (tp + fp)),
      recall_score = example_score (\<lambda>(tp, fp, fn). ratio tp (tp + fn))\<rparr>"

definition example_args :: args where
  "example_args =
     \<lparr>data_dir = ''data'', max_seq_length = 128, eval_batch_size = 2, old_load = True,
      use_clean_data = False, bert_base = False,
      model_weights = ''runs/new_clean_wn_1.pt''\<rparr>"

text \<open>Five rows, three of them positive, with ambiguity scores.\<close>

definition example_ds :: TensorDataset where
  "example_ds =
     \<lparr>t_input_ids = [[4, 1], [2, 2], [9, 0], [1, 1], [3, 5]],
      t_input_masks = [[1, 1], [1, 1], [1, 0], [1, 1], [1, 1]],
      t_token_type_ids = [[0, 0], [0, 0], [0, 0], [0, 0], [0, 0]],
      t_labels = [1, 0, 1, 1, 0],
      t_ambiguity = Some [2, 0, 1, 0, 3]\<rparr>"

text \<open>A data directory with the train and dev files of the three processors.\<close>

definition example_corpus :: filesystem where
  "example_corpus =
     [''corpus/train.tsv'' \<mapsto>
        [[''a'', ''1'', ''x'', ''first''], [''b'', ''0'', ''y'', ''second''],
         [''c'', ''1'', ''z'', ''third'', ''more'']],
      ''corpus/dev.tsv'' \<mapsto> [[''d'', ''0'', ''x'', ''held out'']],
      ''corpus/train_clean.tsv'' \<mapsto> [[''e'', ''0'', ''x'', ''clean one'']],
      ''corpus/dev_clean.tsv'' \<mapsto> [[''f'', ''1'', ''x'', ''clean two'']],
      ''corpus/train_wordnet_amb.tsv'' \<mapsto> [[''g'', ''1'', ''x'', ''amb one'']],
      ''corpus/dev_wordnet_amb.tsv'' \<mapsto> [[''h'', ''0'', ''x'', ''amb two'']]]"

text \<open>
  A second classifier, whose class scores are the token ids of the row themselves, and
  five rows on which its predictions differ from row to row (one row is a tie).
\<close>

definition example_model_ids :: "(string \<rightharpoonup> tensor) \<Rightarrow> error + model_output" where
  "example_model_ids inputs =
     (case inputs ''input_ids'' of
        Some (Tensor2 ids) \<Rightarrow>
          Inr \<lparr>out_loss = [real (length ids)], out_logits = map (map real_of_int) ids\<rparr>
      | _ \<Rightarrow> Inl (CollaboratorError ''input_ids''))"

definition example_collab_ids :: collaborators where
  "example_collab_ids = example_collab\<lparr>model_call := example_model_ids\<rparr>"

definition example_ds_mixed :: TensorDataset where
  "example_ds_mixed =
     \<lparr>t_input_ids = [[1, 3], [2, 2], [0, 5], [7, 1], [4, 6]],
      t_input_masks = [[1, 1], [1, 1], [1, 1], [1, 1], [1, 1]],
      t_token_type_ids = [[0, 0], [0, 0], [0, 0], [0, 0], [0, 0]],
      t_labels = [1, 0, 0, 0, 1],
      t_ambiguity = Some [0, 1, 0, 2, 1]\<rparr>"

section \<open>Properties of the processors\<close>

lemma ebind_simps [simp]:
  "ebind (Inl e) f = Inl e"
  "ebind (Inr x) f = f x"
  by (simp_all add: ebind_def)

lemma ebind_eq_Inr:
  "ebind m f = Inr y \<longleftrightarrow> (\<exists>x. m = Inr x \<and> f x = Inr y)"
  by (cases m) simp_all

lemma create_examples_loop_result:
  "create_examples_loop st i lines acc =
     (if \<forall>l \<in> set lines. 4 \<le> length l
      then Inr (acc @ map (\<lambda>k. example_of st (i + k) (lines ! k)) [0..<length lines])
      else Inl IndexError)"
proof (induction lines arbitrary: i acc)
  case Nil
  show ?case by simp
next
  case (Cons line lines)
  show ?case
  proof (cases "4 \<le> length line")
    case False
    then show ?thesis by (simp add: getitem_def)
  next
    case True
    have shift: "map (\<lambda>k. example_of st (i + k) ((line # lines) ! k)) [0..<length (line # lines)]
        = example_of st i line # map (\<lambda>k. example_of st (Suc i + k) (lines ! k)) [0..<length lines]"
      by (simp add: map_upt_Suc del: upt_Suc)
    from True show ?thesis
      unfolding shift by (simp add: getitem_def Cons.IH example_of_def)
  qed
qed

lemma create_examples_result:
  "create_examples p lines st =
     (if \<forall>l \<in> set lines. 4 \<le> length l
      then Inr (map (\<lambda>k. example_of st k (lines ! k)) [0..<length lines])
      else Inl IndexError)"
  by (cases p) (simp_all add: create_examples_loop_result)

lemma create_examples_rows:
  assumes "create_examples p lines st = Inr exs"
  shows "rows_as_examples st lines exs"
proof -
  from assms have long: "\<forall>l \<in> set lines. 4 \<le> length l"
    and exs: "exs = map (\<lambda>k. example_of st k (lines ! k)) [0..<length lines]"
    by (auto simp: create_examples_result split: if_splits)
  show ?thesis
    unfolding rows_as_examples_def using long by (simp add: exs example_of_def)
qed

lemma rows_as_examples_of:
  assumes "\<forall>l \<in> set lines. 4 \<le> length l"
  shows "rows_as_examples st lines (map (\<lambda>k. example_of st k (lines ! k)) [0..<length lines])"
  unfolding rows_as_examples_def using assms by (simp add: example_of_def)

text \<open>
  Claim C4. For each of the three processors and for both splits, the examples are the
  rows of the file in file order, row 0 included (no header is skipped). Whenever example
  creation returns, there are as many examples as rows, and example \<open>i\<close> has id
  \<open>"{split}-{i}"\<close>, its text from column 3 and its label from column 1 of row \<open>i\<close>; and
  when the file is there and every row has at least four columns, example creation does
  return such a list. The split name is \<open>train\<close> for \<open>get_train_examples\<close> and \<open>dev\<close> for
  \<open>get_dev_examples\<close>, and the label vocabulary is exactly \<open>["0", "1"]\<close>.
\<close>

theorem processor_examples_follow_rows:
  "(create_examples p lines split = Inr exs \<longrightarrow> rows_as_examples split lines exs) \<and>
   (get_train_examples p fs dir = Inr exs \<longrightarrow>
      (\<exists>rows. fs (os_path_join dir (train_file p)) = Some rows \<and> rows_as_examples ''train'' rows exs)) \<and>
   (get_dev_examples p fs dir = Inr exs \<longrightarrow>
      (\<exists>rows. fs (os_path_join dir (dev_file p)) = Some rows \<and> rows_as_examples ''dev'' rows exs)) \<and>
   ((\<forall>l \<in> set lines. 4 \<le> length l) \<longrightarrow>
      (\<exists>ex. create_examples p lines split = Inr ex \<and> rows_as_examples split lines ex)) \<and>
   (fs (os_path_join dir (train_file p)) = Some lines \<and> (\<forall>l \<in> set lines. 4 \<le> length l) \<longrightarrow>
      (\<exists>ex. get_train_examples p fs dir = Inr ex \<and> rows_as_examples ''train'' lines ex)) \<and>
   (fs (os_path_join dir (dev_file p)) = Some lines \<and> (\<forall>l \<in> set lines. 4 \<le> length l) \<longrightarrow>
      (\<exists>ex. get_dev_examples p fs dir = Inr ex \<and> rows_as_examples ''dev'' lines ex)) \<and>
   get_labels p = [''0'', ''1'']"
proof (intro conjI impI)
  assume "create_examples p lines split = Inr exs"
  then show "rows_as_examples split lines exs" by (rule create_examples_rows)
next
  assume "get_train_examples p fs dir = Inr exs"
  then show "\<exists>rows. fs (os_path_join dir (train_file p)) = Some rows \<and> rows_as_examples ''train'' rows exs"
    by (auto simp: get_train_examples_def read_tsv_def ebind_eq_Inr create_examples_rows
        split: option.splits)
next
  assume "get_dev_examples p fs dir = Inr exs"
  then show "\<exists>rows. fs (os_path_join dir (dev_file p)) = Some rows \<and> rows_as_examples ''dev'' rows exs"
    by (auto simp: get_dev_examples_def read_tsv_def ebind_eq_Inr create_examples_rows
        split: option.splits)
next
  assume "\<forall>l \<in> set lines. 4 \<le> length l"
  then show "\<exists>ex. create_examples p lines split = Inr ex \<and> rows_as_examples split lines ex"
    by (simp add: create_examples_result rows_as_examples_of)
next
  assume "fs (os_path_join dir (train_file p)) = Some lines \<and> (\<forall>l \<in> set lines. 4 \<le> length l)"
  then show "\<exists>ex. get_train_examples p fs dir = Inr ex \<and> rows_as_examples ''train'' lines ex"
    by (simp add: get_train_examples_def read_tsv_def create_examples_result rows_as_examples_of)
next
  assume "fs (os_path_join dir (dev_file p)) = Some lines \<and> (\<forall>l \<in> set lines. 4 \<le> length l)"
  then show "\<exists>ex. get_dev_examples p fs dir = Inr ex \<and> rows_as_examples ''dev'' lines ex"
    by (simp add: get_dev_examples_def read_tsv_def create_examples_result rows_as_examples_of)
next
  show "get_labels p = [''0'', ''1'']" by (cases p) simp_all
qed

lemma str_nat_digit: "n < 10 \<Longrightarrow> str_nat n = [digit_char n]"
  by (simp add: str_nat.simps)

lemma example_dev: "get_dev_examples DumbProcessor example_fs ''data'' =
   Inr [\<lparr>guid = ''dev-0'', text_a = ''a joke'', text_b = None, label = Some ''1''\<rparr>,
        \<lparr>guid = ''dev-1'', text_a = ''plain text'', text_b = None, label = Some ''0''\<rparr>]"
  by (simp add: get_dev_examples_def read_tsv_def example_fs_def os_path_join_def getitem_def
      str_nat_digit digit_char_def)

lemmas example_read_defs =
  get_dev_examples_def get_train_examples_def read_tsv_def example_corpus_def os_path_join_def
  getitem_def str_nat_digit digit_char_def

lemma example_corpus_train:
  "get_train_examples ColaProcessor example_corpus ''corpus'' =
     Inr [\<lparr>guid = ''train-0'', text_a = ''first'', text_b = None, label = Some ''1''\<rparr>,
          \<lparr>guid = ''train-1'', text_a = ''second'', text_b = None, label = Some ''0''\<rparr>,
          \<lparr>guid = ''train-2'', text_a = ''third'', text_b = None, label = Some ''1''\<rparr>]"
  "get_train_examples DumbProcessorClean example_corpus ''corpus'' =
     Inr [\<lparr>guid = ''train-0'', text_a = ''clean one'', text_b = None, label = Some ''0''\<rparr>]"
  "get_train_examples DumbProcessor example_corpus ''corpus'' =
     Inr [\<lparr>guid = ''train-0'', text_a = ''amb one'', text_b = None, label = Some ''1''\<rparr>]"
  by (simp_all add: example_read_defs)

lemma example_corpus_dev:
  "get_dev_examples ColaProcessor example_corpus ''corpus'' =
     Inr [\<lparr>guid = ''dev-0'', text_a = ''held out'', text_b = None, label = Some ''0''\<rparr>]"
  "get_dev_examples DumbProcessorClean example_corpus ''corpus'' =
     Inr [\<lparr>guid = ''dev-0'', text_a = ''clean two'', text_b = None, label = Some ''1''\<rparr>]"
  "get_dev_examples DumbProcessor example_corpus ''corpus'' =
     Inr [\<lparr>guid = ''dev-0'', text_a = ''amb two'', text_b = None, label = Some ''0''\<rparr>]"
  by (simp_all add: example_read_defs)

theorem processor_examples_follow_rows_witness:
  "get_train_examples ColaProcessor example_corpus ''corpus'' =
     Inr [\<lparr>guid = ''train-0'', text_a = ''first'', text_b = None, label = Some ''1''\<rparr>,
          \<lparr>guid = ''train-1'', text_a = ''second'', text_b = None, label = Some ''0''\<rparr>,
          \<lparr>guid = ''train-2'', text_a = ''third'', text_b = None, label = Some ''1''\<rparr>] \<and>
   get_train_examples DumbProcessorClean example_corpus ''corpus'' =
     Inr [\<lparr>guid = ''train-0'', text_a = ''clean one'', text_b = None, label = Some ''0''\<rparr>] \<and>
   get_train_examples DumbProcessor example_corpus ''corpus'' =
     Inr [\<lparr>guid = ''train-0'', text_a = ''amb one'', text_b = None, label = Some ''1''\<rparr>] \<and>
   get_dev_examples ColaProcessor example_corpus ''corpus'' =
     Inr [\<lparr>guid = ''dev-0'', text_a = ''held out'', text_b = None, label = Some ''0''\<rparr>] \<and>
   get_dev_examples DumbProcessorClean example_corpus ''corpus'' =
     Inr [\<lparr>guid = ''dev-0'', text_a = ''clean two'', text_b = None, label = Some ''1''\<rparr>] \<and>
   get_dev_examples DumbProcessor example_fs ''data'' =
     Inr [\<lparr>guid = ''dev-0'', text_a = ''a joke'', text_b = None, label = Some ''1''\<rparr>,
          \<lparr>guid = ''dev-1'', text_a = ''plain text'', text_b = None, label = Some ''0''\<rparr>] \<and>
   (\<exists>ex. get_train_examples ColaProcessor example_corpus ''corpus'' = Inr ex \<and>
      rows_as_examples ''train''
        [[''a'', ''1'', ''x'', ''first''], [''b'', ''0'', ''y'', ''second''],
         [''c'', ''1'', ''z'', ''third'', ''more'']] ex) \<and>
   (\<exists>rows. example_fs (os_path_join ''data'' (dev_file DumbProcessor)) = Some rows \<and>
      rows_as_examples ''dev'' rows
        [\<lparr>guid = ''dev-0'', text_a = ''a joke'', text_b = None, label = Some ''1''\<rparr>,
         \<lparr>guid = ''dev-1'', text_a = ''plain text'', text_b = None, label = Some ''0''\<rparr>])"
proof -
  let ?rows = "[[''a'', ''1'', ''x'', ''first''], [''b'', ''0'', ''y'', ''second''],
         [''c'', ''1'', ''z'', ''third'', ''more'']]"
  have f: "example_corpus (os_path_join ''corpus'' (train_file ColaProcessor)) = Some ?rows"
    by (simp add: example_corpus_def os_path_join_def)
  have l: "\<forall>l \<in> set ?rows. 4 \<le> length l" by simp
  from processor_examples_follow_rows [of ColaProcessor ?rows _ _ example_corpus "''corpus''"] f l
  have 1: "\<exists>ex. get_train_examples ColaProcessor example_corpus ''corpus'' = Inr ex \<and>
      rows_as_examples ''train'' ?rows ex"
    by blast
  from processor_examples_follow_rows [of DumbProcessor "[]" "''dev''" _ example_fs "''data''"]
    example_dev
  have 2: "\<exists>rows. example_fs (os_path_join ''data'' (dev_file DumbProcessor)) = Some rows \<and>
      rows_as_examples ''dev'' rows
        [\<lparr>guid = ''dev-0'', text_a = ''a joke'', text_b = None, label = Some ''1''\<rparr>,
         \<lparr>guid = ''dev-1'', text_a = ''plain text'', text_b = None, label = Some ''0''\<rparr>]"
    by simp
  show ?thesis
    using example_corpus_train example_corpus_dev(1,2) example_dev 1 2
    by (intro conjI) assumption+
qed

text \<open>
  Claim C6. When some row of the file has fewer than four columns, example creation
  raises IndexError for each of the three processors: no example is returned, so rows
  are neither skipped nor partially kept.
\<close>

theorem short_row_is_index_error:
  assumes "line \<in> set lines" and "length line < 4"
  shows "create_examples p lines split = Inl IndexError \<and>
         (fs (os_path_join dir (dev_file p)) = Some lines \<longrightarrow> get_dev_examples p fs dir = Inl IndexError) \<and>
         (fs (os_path_join dir (train_file p)) = Some lines \<longrightarrow> get_train_examples p fs dir = Inl IndexError)"
proof -
  from assms(2) have "\<not> 4 \<le> length line" by simp
  with assms(1) have "\<not> (\<forall>l \<in> set lines. 4 \<le> length l)" by blast
  then have *: "\<And>st. create_examples p lines st = Inl IndexError"
    by (simp add: create_examples_result)
  then show ?thesis
    by (simp add: get_dev_examples_def get_train_examples_def read_tsv_def)
qed

theorem short_row_is_index_error_witness:
  "[''1'', ''0''] \<in> set [[''0'', ''1'', ''a'', ''funny''], [''1'', ''0'']] \<and>
   length [''1'', ''0''] < 4 \<and>
   example_fs (os_path_join ''data'' (dev_file ColaProcessor)) =
      Some [[''0'', ''1'', ''a'', ''funny''], [''1'', ''0'']] \<and>
   get_dev_examples ColaProcessor example_fs ''data'' = Inl IndexError"
proof -
  have m: "[''1'', ''0''] \<in> set [[''0'', ''1'', ''a'', ''funny''], [''1'', ''0'']]" by simp
  have l: "length [''1'', ''0''] < 4" by simp
  have f: "example_fs (os_path_join ''data'' (dev_file ColaProcessor)) =
      Some [[''0'', ''1'', ''a'', ''funny''], [''1'', ''0'']]"
    by (simp add: example_fs_def os_path_join_def)
  from short_row_is_index_error [OF m l, of ColaProcessor "''dev''" example_fs "''data''"] f
  show ?thesis using m l by simp
qed

section \<open>Properties of the command line\<close>

lemma startswith_iff: "startswith s p \<longleftrightarrow> (\<exists>b. s = p @ b)"
  by (induction s p rule: startswith.induct) auto

lemma str_contains_iff: "str_contains sub s \<longleftrightarrow> (\<exists>a b. s = a @ sub @ b)"
proof (induction s)
  case Nil
  show ?case by auto
next
  case (Cons c s)
  show ?case
  proof
    assume "str_contains sub (c # s)"
    then consider "startswith (c # s) sub" | "str_contains sub s" by auto
    then show "\<exists>a b. c # s = a @ sub @ b"
    proof cases
      case 1
      then obtain b where "c # s = sub @ b" by (auto simp: startswith_iff)
      then have "c # s = [] @ sub @ b" by simp
      then show ?thesis by blast
    next
      case 2
      then obtain a b where "s = a @ sub @ b" using Cons.IH by blast
      then have "c # s = (c # a) @ sub @ b" by simp
      then show ?thesis by blast
    qed
  next
    assume "\<exists>a b. c # s = a @ sub @ b"
    then obtain a b where ab: "c # s = a @ sub @ b" by blast
    show "str_contains sub (c # s)"
    proof (cases a)
      case Nil
      with ab have "startswith (c # s) sub" by (auto simp: startswith_iff)
      then show ?thesis by simp
    next
      case (Cons x a')
      with ab have "s = a' @ sub @ b" by simp
      then have "str_contains sub s" using Cons.IH by blast
      then show ?thesis by simp
    qed
  qed
qed

lemma new_clean_contains_new:
  assumes "str_contains ''new_clean'' w"
  shows "str_contains ''new'' w"
proof -
  from assms obtain a b where "w = a @ ''new_clean'' @ b" by (auto simp: str_contains_iff)
  then have "w = a @ ''new'' @ (''_clean'' @ b)" by simp
  then show ?thesis unfolding str_contains_iff by blast
qed

text \<open>
  Claim C10. The task name and the ambiguity function depend on the weights path alone:
  two argument records with the same \<open>model_weights\<close> get the same task name and the
  same ambiguity function, whatever their data directories. A weights path containing
  \<open>new_clean\<close> (which then also contains \<open>new\<close>) gives \<open>new_clean\<close>; one containing \<open>new\<close>
  but not \<open>new_clean\<close> gives \<open>new\<close>; one without \<open>new\<close> gives \<open>old\<close>.
\<close>

theorem task_inferred_from_weights_path:
  "(model_weights a = model_weights b \<longrightarrow>
      infer_task_name a = infer_task_name b \<and> infer_ambiguity_fn a = infer_ambiguity_fn b) \<and>
   (str_contains ''new_clean'' (model_weights a) \<longrightarrow>
      str_contains ''new'' (model_weights a) \<and> infer_task_name a = ''new_clean'') \<and>
   (\<not> str_contains ''new_clean'' (model_weights a) \<and> str_contains ''new'' (model_weights a) \<longrightarrow>
      infer_task_name a = ''new'') \<and>
   (\<not> str_contains ''new'' (model_weights a) \<longrightarrow> infer_task_name a = ''old'')"
  using new_clean_contains_new [of "model_weights a"]
  by (auto simp: infer_task_name_def infer_ambiguity_fn_def)

theorem task_inferred_from_weights_path_witness:
  "model_weights example_args = model_weights (example_args\<lparr>data_dir := ''old_csi_''\<rparr>) \<and>
   str_contains ''new_clean'' (model_weights example_args) \<and>
   str_contains ''new'' (model_weights example_args) \<and>
   infer_task_name example_args = ''new_clean'' \<and>
   infer_task_name (example_args\<lparr>data_dir := ''old_csi_''\<rparr>) = ''new_clean'' \<and>
   infer_ambiguity_fn (example_args\<lparr>data_dir := ''old_csi_''\<rparr>) = ''wn''"
proof -
  have c: "str_contains ''new_clean'' (model_weights example_args)"
    by (simp add: example_args_def)
  have w: "infer_ambiguity_fn example_args = ''wn''"
    by (simp add: example_args_def infer_ambiguity_fn_def)
  have m: "model_weights example_args = model_weights (example_args\<lparr>data_dir := ''old_csi_''\<rparr>)"
    by simp
  note t = task_inferred_from_weights_path [of example_args "example_args\<lparr>data_dir := ''old_csi_''\<rparr>"]
  from t m have e: "infer_task_name example_args = infer_task_name (example_args\<lparr>data_dir := ''old_csi_''\<rparr>)"
    and f: "infer_ambiguity_fn example_args = infer_ambiguity_fn (example_args\<lparr>data_dir := ''old_csi_''\<rparr>)"
    by blast+
  from t c have n: "str_contains ''new'' (model_weights example_args)"
    and k: "infer_task_name example_args = ''new_clean''"
    by blast+
  show ?thesis
    using m c n k e f w by metis
qed

section \<open>Properties of the loader\<close>

lemma legacy_load_unfold:
  assumes "old_load a" and "processors task = Some p"
  shows "load_and_cache_examples c fs a amb task =
     ebind (get_dev_examples p fs (data_dir a)) (\<lambda>examples.
     ebind (convert_examples_new c examples (get_labels p) (max_seq_length a)) (\<lambda>features.
     ebind (torch_tensor_2d (map f_input_ids features)) (\<lambda>input_ids.
     ebind (torch_tensor_2d (map f_input_mask features)) (\<lambda>input_masks.
     ebind (torch_tensor_2d (map f_segment_ids features)) (\<lambda>token_type_ids.
     ebind (torch_tensor_1d (map f_label_id features)) (\<lambda>labels.
       tensor_dataset
         \<lparr>t_input_ids = input_ids, t_input_masks = input_masks,
          t_token_type_ids = token_type_ids, t_labels = labels,
          t_ambiguity = None\<rparr>))))))"
  using assms by (simp add: load_and_cache_examples_def global_evaluate_def)

lemma legacy_load_no_ambiguity:
  assumes "old_load a" and "load_and_cache_examples c fs a amb task = Inr ds"
  shows "t_ambiguity ds = None"
proof (cases "processors task")
  case None
  with assms show ?thesis by (simp add: load_and_cache_examples_def)
next
  case (Some p)
  from assms(2) show ?thesis
    unfolding legacy_load_unfold [OF assms(1) Some]
    by (auto simp: ebind_eq_Inr tensor_dataset_def split: if_splits)
qed

text \<open>
  Claim C8. With the legacy-loader flag set, the loader reads the dev split and never the
  train split. The branch condition \<open>not evaluate\<close> is false, since the name denotes the
  module-level function. An unknown task name is a KeyError; otherwise a failure of
  \<open>get_dev_examples\<close> (such as a missing dev file) is the loader's failure, and two file
  systems that agree on the dev file give the same result, whatever they hold at the
  train file's path.
\<close>

theorem legacy_loader_reads_dev_split_only:
  assumes "old_load a"
  shows "truthy global_evaluate \<and>
    (processors task = None \<longrightarrow> load_and_cache_examples c fs a amb task = Inl KeyError) \<and>
    (\<forall>p. processors task = Some p \<longrightarrow>
       (\<forall>e. get_dev_examples p fs (data_dir a) = Inl e \<longrightarrow>
            load_and_cache_examples c fs a amb task = Inl e) \<and>
       (fs (os_path_join (data_dir a) (dev_file p)) = None \<longrightarrow>
            load_and_cache_examples c fs a amb task = Inl FileNotFoundError) \<and>
       (fs' (os_path_join (data_dir a) (dev_file p)) = fs (os_path_join (data_dir a) (dev_file p)) \<longrightarrow>
            load_and_cache_examples c fs' a amb task = load_and_cache_examples c fs a amb task))"
proof (intro conjI allI impI)
  show "truthy global_evaluate" by (simp add: global_evaluate_def)
next
  assume "processors task = None"
  with assms show "load_and_cache_examples c fs a amb task = Inl KeyError"
    by (simp add: load_and_cache_examples_def)
next
  fix p e
  assume "processors task = Some p" and "get_dev_examples p fs (data_dir a) = Inl e"
  then show "load_and_cache_examples c fs a amb task = Inl e"
    by (simp add: legacy_load_unfold [OF assms])
next
  fix p
  assume "processors task = Some p" and "fs (os_path_join (data_dir a) (dev_file p)) = None"
  then show "load_and_cache_examples c fs a amb task = Inl FileNotFoundError"
    by (simp add: legacy_load_unfold [OF assms] get_dev_examples_def read_tsv_def)
next
  fix p
  assume p: "processors task = Some p"
    and "fs' (os_path_join (data_dir a) (dev_file p)) = fs (os_path_join (data_dir a) (dev_file p))"
  then have "get_dev_examples p fs' (data_dir a) = get_dev_examples p fs (data_dir a)"
    by (simp add: get_dev_examples_def read_tsv_def)
  then show "load_and_cache_examples c fs' a amb task = load_and_cache_examples c fs a amb task"
    by (simp add: legacy_load_unfold [OF assms p])
qed

lemma example_processor: "processors ''new_clean'' = Some DumbProcessorClean"
  by (simp add: processors_def)

lemma example_dev_clean:
  "get_dev_examples DumbProcessorClean example_fs ''data'' =
     Inr [\<lparr>guid = ''dev-0'', text_a = ''funny'', text_b = None, label = Some ''1''\<rparr>,
          \<lparr>guid = ''dev-1'', text_a = ''dull'', text_b = None, label = Some ''0''\<rparr>]"
  by (simp add: get_dev_examples_def read_tsv_def example_fs_def os_path_join_def getitem_def
      str_nat_digit digit_char_def)

lemma example_dev_empty:
  "get_dev_examples DumbProcessorClean example_fs ''empty'' = Inr []"
  by (simp add: get_dev_examples_def read_tsv_def example_fs_def os_path_join_def)

lemma example_old_load: "old_load example_args"
  by (simp add: example_args_def)

lemma example_load:
  "load_and_cache_examples example_collab example_fs example_args ''wn'' ''new_clean'' =
     Inr \<lparr>t_input_ids = [[5], [4]], t_input_masks = [[1], [1]], t_token_type_ids = [[0], [0]],
          t_labels = [1, 0], t_ambiguity = None\<rparr>"
  unfolding legacy_load_unfold [OF example_old_load example_processor]
  by (simp add: example_args_def example_dev_clean example_collab_def example_convert_def
      torch_tensor_2d_def torch_tensor_1d_def fits_long_def tensor_dataset_def same_first_dim_def)

lemma example_load_empty:
  "load_and_cache_examples example_collab example_fs (example_args\<lparr>data_dir := ''empty''\<rparr>)
      ''wn'' ''new_clean'' =
     Inr \<lparr>t_input_ids = [], t_input_masks = [], t_token_type_ids = [],
          t_labels = [], t_ambiguity = None\<rparr>"
proof -
  have o: "old_load (example_args\<lparr>data_dir := ''empty''\<rparr>)" by (simp add: example_args_def)
  show ?thesis
    unfolding legacy_load_unfold [OF o example_processor]
    by (simp add: example_dev_empty example_collab_def example_convert_def
      torch_tensor_2d_def torch_tensor_1d_def fits_long_def tensor_dataset_def same_first_dim_def)
qed

theorem legacy_loader_reads_dev_split_only_witness:
  "old_load example_args \<and>
   processors ''new_clean'' = Some DumbProcessorClean \<and>
   example_fs (os_path_join (data_dir example_args) (train_file DumbProcessorClean)) = None \<and>
   load_and_cache_examples example_collab (example_fs(''data/train_clean.tsv'' \<mapsto> [[''short'']]))
       example_args ''wn'' ''new_clean'' =
     Inr \<lparr>t_input_ids = [[5], [4]], t_input_masks = [[1], [1]], t_token_type_ids = [[0], [0]],
          t_labels = [1, 0], t_ambiguity = None\<rparr>"
proof -
  let ?fs' = "example_fs(''data/train_clean.tsv'' \<mapsto> [[''short'']])"
  have t: "example_fs (os_path_join (data_dir example_args) (train_file DumbProcessorClean)) = None"
    by (simp add: example_fs_def example_args_def os_path_join_def)
  have d: "?fs' (os_path_join (data_dir example_args) (dev_file DumbProcessorClean)) =
      example_fs (os_path_join (data_dir example_args) (dev_file DumbProcessorClean))"
    by (simp add: example_args_def os_path_join_def)
  from legacy_loader_reads_dev_split_only [OF example_old_load,
      of "''new_clean''" example_collab example_fs "''wn''" ?fs'] example_processor d
  have "load_and_cache_examples example_collab ?fs' example_args ''wn'' ''new_clean'' =
      load_and_cache_examples example_collab example_fs example_args ''wn'' ''new_clean''"
    by blast
  with example_load example_old_load example_processor t show ?thesis by simp
qed

section \<open>Properties of the model input bundle\<close>

lemma build_inputs_baseline:
  assumes "str_contains ''baseline_'' dd"
  shows "build_inputs dd batch =
     Inr [''input_ids'' \<mapsto> Tensor2 (t_input_ids batch),
          ''token_type_ids'' \<mapsto> Tensor2 (t_token_type_ids batch),
          ''attention_mask'' \<mapsto> Tensor2 (t_input_masks batch),
          ''labels'' \<mapsto> Tensor1 (t_labels batch)]"
  using assms by (simp add: build_inputs_def)

lemma build_inputs_other:
  assumes "\<not> str_contains ''baseline_'' dd"
  shows "build_inputs dd batch =
     (case t_ambiguity batch of
        None \<Rightarrow> Inl IndexError
      | Some amb \<Rightarrow>
          Inr [''input_ids'' \<mapsto> Tensor2 (t_input_ids batch),
               ''token_type_ids'' \<mapsto> Tensor2 (t_token_type_ids batch),
               ''attention_mask'' \<mapsto> Tensor2 (t_input_masks batch),
               ''labels'' \<mapsto> Tensor1 (t_labels batch),
               ''ambiguity_scores'' \<mapsto> Tensor1 amb])"
  using assms by (simp add: build_inputs_def)

lemma build_inputs_has_ambiguity:
  assumes "build_inputs dd batch = Inr inputs"
  shows "''ambiguity_scores'' \<in> dom inputs \<longleftrightarrow> \<not> str_contains ''baseline_'' dd"
proof (cases "str_contains ''baseline_'' dd")
  case True
  with assms show ?thesis by (auto simp: build_inputs_baseline)
next
  case False
  with assms show ?thesis by (auto simp: build_inputs_other split: option.splits)
qed

lemma eval_step_calls_model:
  assumes "eval_step c dd batch s = Inr s'"
  shows "\<exists>inputs outputs. build_inputs dd batch = Inr inputs \<and> model_call c inputs = Inr outputs"
  using assms unfolding eval_step_def by (auto simp: ebind_eq_Inr)

text \<open>
  Claim C2. A bundle that \<open>evaluate\<close> builds for a batch has the entry
  \<open>ambiguity_scores\<close> if and only if \<open>"baseline_"\<close> does not occur in the data directory.
  With the marker the bundle is built for every batch and has exactly the four other
  entries; without it, a batch that has a fifth tensor gets that tensor as
  \<open>ambiguity_scores\<close>. Every pass of the loop body that completes has called the model on
  such a bundle.
\<close>

theorem ambiguity_field_iff_not_baseline:
  "(build_inputs dd batch = Inr inputs \<longrightarrow>
      (''ambiguity_scores'' \<in> dom inputs \<longleftrightarrow> \<not> str_contains ''baseline_'' dd)) \<and>
   (str_contains ''baseline_'' dd \<longrightarrow>
      (\<exists>inp. build_inputs dd batch = Inr inp \<and>
         dom inp = {''input_ids'', ''token_type_ids'', ''attention_mask'', ''labels''})) \<and>
   (\<not> str_contains ''baseline_'' dd \<and> t_ambiguity batch = Some amb \<longrightarrow>
      (\<exists>inp. build_inputs dd batch = Inr inp \<and> inp ''ambiguity_scores'' = Some (Tensor1 amb))) \<and>
   (eval_step c dd batch s = Inr s' \<longrightarrow>
      (\<exists>inp outputs. build_inputs dd batch = Inr inp \<and> model_call c inp = Inr outputs \<and>
         (''ambiguity_scores'' \<in> dom inp \<longleftrightarrow> \<not> str_contains ''baseline_'' dd)))"
proof (intro conjI impI)
  assume "build_inputs dd batch = Inr inputs"
  then show "''ambiguity_scores'' \<in> dom inputs \<longleftrightarrow> \<not> str_contains ''baseline_'' dd"
    by (rule build_inputs_has_ambiguity)
next
  assume "str_contains ''baseline_'' dd"
  then show "\<exists>inp. build_inputs dd batch = Inr inp \<and>
         dom inp = {''input_ids'', ''token_type_ids'', ''attention_mask'', ''labels''}"
    by (auto simp: build_inputs_baseline)
next
  assume "\<not> str_contains ''baseline_'' dd \<and> t_ambiguity batch = Some amb"
  then show "\<exists>inp. build_inputs dd batch = Inr inp \<and> inp ''ambiguity_scores'' = Some (Tensor1 amb)"
    by (simp add: build_inputs_other)
next
  assume "eval_step c dd batch s = Inr s'"
  then obtain inp outputs where "build_inputs dd batch = Inr inp" "model_call c inp = Inr outputs"
    using eval_step_calls_model by blast
  then show "\<exists>inp outputs. build_inputs dd batch = Inr inp \<and> model_call c inp = Inr outputs \<and>
         (''ambiguity_scores'' \<in> dom inp \<longleftrightarrow> \<not> str_contains ''baseline_'' dd)"
    using build_inputs_has_ambiguity by blast
qed

theorem ambiguity_field_iff_not_baseline_witness:
  "str_contains ''baseline_'' ''runs/baseline_data'' \<and>
   (\<exists>inp. build_inputs ''runs/baseline_data'' example_ds = Inr inp \<and>
      dom inp = {''input_ids'', ''token_type_ids'', ''attention_mask'', ''labels''}) \<and>
   \<not> str_contains ''baseline_'' ''data'' \<and>
   t_ambiguity example_ds = Some [2, 0, 1, 0, 3] \<and>
   (\<exists>inp. build_inputs ''data'' example_ds = Inr inp \<and>
      inp ''ambiguity_scores'' = Some (Tensor1 [2, 0, 1, 0, 3]))"
proof -
  have b: "str_contains ''baseline_'' ''runs/baseline_data''" by simp
  have n: "\<not> str_contains ''baseline_'' ''data''" by simp
  have t: "t_ambiguity example_ds = Some [2, 0, 1, 0, 3]" by (simp add: example_ds_def)
  from ambiguity_field_iff_not_baseline [of "''runs/baseline_data''" example_ds] b
  have 1: "\<exists>inp. build_inputs ''runs/baseline_data'' example_ds = Inr inp \<and>
      dom inp = {''input_ids'', ''token_type_ids'', ''attention_mask'', ''labels''}"
    by blast
  from ambiguity_field_iff_not_baseline [of "''data''" example_ds _ "[2, 0, 1, 0, 3]"] n t
  have 2: "\<exists>inp. build_inputs ''data'' example_ds = Inr inp \<and>
      inp ''ambiguity_scores'' = Some (Tensor1 [2, 0, 1, 0, 3])"
    by blast
  from b n t 1 2 show ?thesis by blast
qed

section \<open>Failures of the evaluation\<close>

lemma batch_sampler_nonempty:
  "batch \<noteq> [] \<or> idxs \<noteq> [] \<Longrightarrow> batch_sampler n batch idxs \<noteq> []"
  by (induction idxs arbitrary: batch) auto

lemma dataloader_nonempty:
  assumes "0 < ds_len ds" and "0 < bs"
  shows "\<exists>idxs rest. dataloader ds bs = Inr (collate ds idxs # map (collate ds) rest)"
proof -
  from assms(1) have "sequential_sampler ds \<noteq> []" by (simp add: sequential_sampler_def)
  then have "batch_sampler (nat bs) [] (sequential_sampler ds) \<noteq> []"
    by (simp add: batch_sampler_nonempty)
  then obtain idxs rest where "batch_sampler (nat bs) [] (sequential_sampler ds) = idxs # rest"
    by (cases "batch_sampler (nat bs) [] (sequential_sampler ds)") auto
  with assms(2) show ?thesis by (auto simp: dataloader_def)
qed

lemma collate_no_ambiguity: "t_ambiguity ds = None \<Longrightarrow> t_ambiguity (collate ds idxs) = None"
  by (simp add: collate_def)

text \<open>
  Claim C9. With the legacy-loader flag set, a data directory without \<open>"baseline_"\<close>, a
  dataset that loaded with at least one row and a positive batch size, the evaluation
  fails with IndexError on its first batch: the legacy dataset has no fifth tensor, the
  loader yields a first batch, and building that batch's input bundle reads \<open>batch[4]\<close>.
\<close>

theorem legacy_loader_without_baseline_fails:
  assumes "old_load a" and "\<not> str_contains ''baseline_'' (data_dir a)"
    and "load_and_cache_examples c fs a amb task = Inr ds"
    and "0 < ds_len ds" and "0 < eval_batch_size a"
  shows "t_ambiguity ds = None \<and>
    (\<exists>batch batches. dataloader ds (eval_batch_size a) = Inr (batch # batches) \<and>
       build_inputs (data_dir a) batch = Inl IndexError \<and>
       eval_step c (data_dir a) batch init_state = Inl IndexError) \<and>
    evaluate c fs a amb task = Inl IndexError"
proof -
  have none: "t_ambiguity ds = None"
    using assms(1,3) by (rule legacy_load_no_ambiguity)
  obtain idxs rest where dl: "dataloader ds (eval_batch_size a) = Inr (collate ds idxs # map (collate ds) rest)"
    using dataloader_nonempty [OF assms(4,5)] by blast
  have bi: "build_inputs (data_dir a) (collate ds idxs) = Inl IndexError"
    using assms(2) none by (simp add: build_inputs_other collate_no_ambiguity)
  then have st: "eval_step c (data_dir a) (collate ds idxs) init_state = Inl IndexError"
    by (simp add: eval_step_def)
  then have "run_evaluation c a ds = Inl IndexError"
    by (simp add: run_evaluation_def dl)
  then have "evaluate c fs a amb task = Inl IndexError"
    by (simp add: evaluate_def assms(3))
  with none dl bi st show ?thesis by blast
qed

theorem legacy_loader_without_baseline_fails_witness:
  "old_load example_args \<and> \<not> str_contains ''baseline_'' (data_dir example_args) \<and>
   load_and_cache_examples example_collab example_fs example_args ''wn'' ''new_clean'' =
     Inr \<lparr>t_input_ids = [[5], [4]], t_input_masks = [[1], [1]], t_token_type_ids = [[0], [0]],
          t_labels = [1, 0], t_ambiguity = None\<rparr> \<and>
   0 < eval_batch_size example_args \<and>
   evaluate example_collab example_fs example_args ''wn'' ''new_clean'' = Inl IndexError"
proof -
  have n: "\<not> str_contains ''baseline_'' (data_dir example_args)" by (simp add: example_args_def)
  have l: "0 < ds_len \<lparr>t_input_ids = [[5], [4]], t_input_masks = [[1], [1]],
      t_token_type_ids = [[0], [0]], t_labels = [1, 0], t_ambiguity = None\<rparr>"
    by (simp add: ds_len_def)
  have b: "0 < eval_batch_size example_args" by (simp add: example_args_def)
  from legacy_loader_without_baseline_fails [OF example_old_load n example_load l b]
  have "evaluate example_collab example_fs example_args ''wn'' ''new_clean'' = Inl IndexError"
    by blast
  with example_old_load n example_load b show ?thesis by blast
qed

text \<open>
  Claim C7. On a dataset with no row the evaluation fails before its two divisions are
  reached, and not with a ZeroDivisionError: a batch size that is not positive is the
  loader's ValueError; otherwise the loop body never runs, the two buffers are still
  \<open>None\<close>, and \<open>get_metrics\<close> fails with the AxisError of \<open>np.argmax(None, axis=1)\<close>.
\<close>

theorem empty_dataset_fails_before_division:
  assumes "ds_len ds = 0"
  shows "run_evaluation c a ds = Inl (if eval_batch_size a \<le> 0 then ValueError else AxisError) \<and>
    run_evaluation c a ds \<noteq> Inl ZeroDivisionError \<and>
    (load_and_cache_examples c fs a amb task = Inr ds \<longrightarrow>
       evaluate c fs a amb task = Inl (if eval_batch_size a \<le> 0 then ValueError else AxisError))"
proof -
  have r: "run_evaluation c a ds = Inl (if eval_batch_size a \<le> 0 then ValueError else AxisError)"
    using assms
    by (simp add: run_evaluation_def dataloader_def sequential_sampler_def init_state_def
        get_metrics_def np_argmax_def)
  then show ?thesis by (simp add: evaluate_def)
qed

theorem empty_dataset_fails_before_division_witness:
  "ds_len \<lparr>t_input_ids = [], t_input_masks = [], t_token_type_ids = [],
          t_labels = [], t_ambiguity = None\<rparr> = 0 \<and>
   load_and_cache_examples example_collab example_fs (example_args\<lparr>data_dir := ''empty''\<rparr>)
      ''wn'' ''new_clean'' =
     Inr \<lparr>t_input_ids = [], t_input_masks = [], t_token_type_ids = [],
          t_labels = [], t_ambiguity = None\<rparr> \<and>
   evaluate example_collab example_fs (example_args\<lparr>data_dir := ''empty''\<rparr>) ''wn'' ''new_clean'' =
     Inl AxisError"
proof -
  let ?ds = "\<lparr>t_input_ids = [], t_input_masks = [], t_token_type_ids = [],
          t_labels = [], t_ambiguity = None\<rparr>"
  let ?a = "example_args\<lparr>data_dir := ''empty''\<rparr>"
  have z: "ds_len ?ds = 0" by (simp add: ds_len_def)
  have b: "\<not> eval_batch_size ?a \<le> 0" by (simp add: example_args_def)
  from empty_dataset_fails_before_division [OF z, of example_collab ?a example_fs "''wn''" "''new_clean''"]
    example_load_empty b
  have "evaluate example_collab example_fs ?a ''wn'' ''new_clean'' = Inl AxisError"
    by simp
  with z example_load_empty show ?thesis by blast
qed

section \<open>Properties of sequential batching\<close>

lemma batch_sampler_concat: "concat (batch_sampler n batch idxs) = batch @ idxs"
  by (induction idxs arbitrary: batch) auto

lemma batch_sampler_length:
  "length batch < n \<Longrightarrow>
     length (batch_sampler n batch idxs) = (length batch + length idxs + n - 1) div n"
proof (induction idxs arbitrary: batch)
  case Nil
  then show ?case by (cases batch) auto
next
  case (Cons idx idxs)
  show ?case
  proof (cases "Suc (length batch) = n")
    case True
    have "0 < n" using Cons.prems by simp
    have "length (batch_sampler n [] idxs) = (length idxs + n - 1) div n"
      using Cons.IH [of "[]"] \<open>0 < n\<close> by simp
    moreover have "(length batch + Suc (length idxs) + n - 1) div n = Suc ((length idxs + n - 1) div n)"
    proof -
      define m where "m = length idxs + n - 1"
      have "length batch + Suc (length idxs) + n - 1 = m + n"
        using True \<open>0 < n\<close> by (simp add: m_def)
      then have "(length batch + Suc (length idxs) + n - 1) div n = (m + n) div n" by simp
      also have "\<dots> = Suc (m div n)" using \<open>0 < n\<close> by simp
      finally show ?thesis by (simp add: m_def)
    qed
    ultimately show ?thesis using True by simp
  next
    case False
    with Cons.prems have "length (batch @ [idx]) < n" by simp
    from Cons.IH [OF this] False show ?thesis by simp
  qed
qed

lemma dataloader_batches:
  assumes "dataloader ds bs = Inr batches"
  shows "0 < bs \<and> (\<exists>idxss. batches = map (collate ds) idxss \<and> concat idxss = [0..<ds_len ds] \<and>
     length idxss = (ds_len ds + nat bs - 1) div nat bs)"
proof -
  from assms have pos: "0 < bs" and b: "batches = map (collate ds) (batch_sampler (nat bs) [] (sequential_sampler ds))"
    by (auto simp: dataloader_def split: if_splits)
  have "concat (batch_sampler (nat bs) [] (sequential_sampler ds)) = [0..<ds_len ds]"
    by (simp add: batch_sampler_concat sequential_sampler_def)
  moreover have "length (batch_sampler (nat bs) [] (sequential_sampler ds)) = (ds_len ds + nat bs - 1) div nat bs"
    using pos batch_sampler_length [of "[]" "nat bs" "sequential_sampler ds"]
    by (simp add: sequential_sampler_def)
  ultimately show ?thesis using pos b by blast
qed

lemma collate_labels_concat:
  "concat (map t_labels (map (collate ds) idxss)) = map (\<lambda>i. t_labels ds ! i) (concat idxss)"
  by (induction idxss) (simp_all add: collate_def)

lemma collate_len_sum:
  "sum_list (map ds_len (map (collate ds) idxss)) = length (concat idxss)"
  by (induction idxss) (simp_all add: collate_def ds_len_def)

lemma all_labels_in_order:
  assumes "same_first_dim ds" and "concat idxss = [0..<ds_len ds]"
  shows "concat (map t_labels (map (collate ds) idxss)) = t_labels ds"
proof -
  from assms(1) have "length (t_labels ds) = ds_len ds"
    by (simp add: same_first_dim_def ds_len_def)
  then have "map (\<lambda>i. t_labels ds ! i) [0..<ds_len ds] = t_labels ds"
    by (metis map_nth)
  with collate_labels_concat [of ds idxss] assms(2) show ?thesis by simp
qed

section \<open>Properties of the evaluation loop\<close>

lemma emap_length: "emap f xs = Inr ys \<Longrightarrow> length ys = length xs"
  by (induction xs arbitrary: ys) (auto simp: ebind_eq_Inr)

lemma emap_append:
  "emap f xs = Inr as \<Longrightarrow> emap f ys = Inr bs \<Longrightarrow> emap f (xs @ ys) = Inr (as @ bs)"
  by (induction xs arbitrary: as) (auto simp: ebind_eq_Inr)

lemma count_eq_append:
  "length ps = length ls \<Longrightarrow> count_eq (ps @ qs) (ls @ ms) = count_eq ps ls + count_eq qs ms"
  by (simp add: count_eq_def)

lemma count_eq_le: "count_eq ps ls \<le> length ls"
  unfolding count_eq_def
  by (rule order_trans [OF length_filter_le]) simp

lemma eval_step_Inr:
  assumes "eval_step c dd b s = Inr s'"
  shows "\<exists>outputs preds k.
     ebind (build_inputs dd b) (model_call c) = Inr outputs \<and>
     emap argmax_row (out_logits outputs) = Inr preds \<and>
     np_sum_eq preds (Some (t_labels b)) = Inr k \<and>
     eval_loss s' = eval_loss s + tensor_mean (out_loss outputs) \<and>
     eval_accuracy s' = eval_accuracy s + k \<and>
     nb_eval_steps s' = nb_eval_steps s + 1 \<and>
     nb_eval_examples s' = nb_eval_examples s + ds_len b \<and>
     full_logits s' = Some (buf (full_logits s) @ out_logits outputs) \<and>
     full_labels s' = Some (buf (full_labels s) @ t_labels b)"
  using assms unfolding eval_step_def Let_def
  by (auto simp: ebind_eq_Inr accuracy_def np_argmax_def np_append_rows_def buf_def ds_len_def
      split: option.splits if_splits)

lemma eval_step_batch:
  assumes "eval_step c dd b s = Inr s'"
  shows "eval_loss s' = eval_loss s + batch_loss c dd b"
    and "nb_eval_steps s' = nb_eval_steps s + 1"
    and "nb_eval_examples s' = nb_eval_examples s + ds_len b"
    and "full_logits s' = Some (buf (full_logits s) @ batch_logits c dd b)"
    and "full_labels s' = Some (buf (full_labels s) @ t_labels b)"
    and "emap argmax_row (batch_logits c dd b) = Inr (batch_preds c dd b)"
    and "length (batch_logits c dd b) = length (t_labels b) \<Longrightarrow>
           eval_accuracy s' = eval_accuracy s + count_eq (batch_preds c dd b) (t_labels b)"
proof -
  from eval_step_Inr [OF assms] obtain outputs preds k where
    o: "ebind (build_inputs dd b) (model_call c) = Inr outputs"
    and p: "emap argmax_row (out_logits outputs) = Inr preds"
    and k: "np_sum_eq preds (Some (t_labels b)) = Inr k"
    and r: "eval_loss s' = eval_loss s + tensor_mean (out_loss outputs)"
      "eval_accuracy s' = eval_accuracy s + k"
      "nb_eval_steps s' = nb_eval_steps s + 1"
      "nb_eval_examples s' = nb_eval_examples s + ds_len b"
      "full_logits s' = Some (buf (full_logits s) @ out_logits outputs)"
      "full_labels s' = Some (buf (full_labels s) @ t_labels b)"
    by blast
  have bl: "batch_logits c dd b = out_logits outputs" by (simp add: batch_logits_def o)
  have bp: "batch_preds c dd b = preds" by (simp add: batch_preds_def bl p)
  show "eval_loss s' = eval_loss s + batch_loss c dd b" by (simp add: r batch_loss_def o)
  show "nb_eval_steps s' = nb_eval_steps s + 1" by (rule r)
  show "nb_eval_examples s' = nb_eval_examples s + ds_len b" by (rule r)
  show "full_logits s' = Some (buf (full_logits s) @ batch_logits c dd b)" by (simp add: r bl)
  show "full_labels s' = Some (buf (full_labels s) @ t_labels b)" by (rule r)
  show "emap argmax_row (batch_logits c dd b) = Inr (batch_preds c dd b)" by (simp add: bl bp p)
  show "eval_accuracy s' = eval_accuracy s + count_eq (batch_preds c dd b) (t_labels b)"
    if "length (batch_logits c dd b) = length (t_labels b)"
  proof -
    from emap_length [OF p] that have "length preds = length (t_labels b)" by (simp add: bl)
    with k have "k = count_eq preds (t_labels b)" by (simp add: np_sum_eq_def)
    then show ?thesis by (simp add: r bp)
  qed
qed

lemma eval_loop_Inr:
  assumes "eval_loop c dd bs s = Inr s'"
  shows "eval_loss s' = eval_loss s + sum_list (map (batch_loss c dd) bs) \<and>
     nb_eval_steps s' = nb_eval_steps s + length bs \<and>
     nb_eval_examples s' = nb_eval_examples s + sum_list (map ds_len bs) \<and>
     buf (full_logits s') = buf (full_logits s) @ concat (map (batch_logits c dd) bs) \<and>
     buf (full_labels s') = buf (full_labels s) @ concat (map t_labels bs) \<and>
     (bs = [] \<longrightarrow> s' = s) \<and>
     (bs \<noteq> [] \<longrightarrow> full_logits s' \<noteq> None \<and> full_labels s' \<noteq> None) \<and>
     emap argmax_row (concat (map (batch_logits c dd) bs)) = Inr (concat (map (batch_preds c dd) bs)) \<and>
     ((\<forall>b \<in> set bs. length (batch_logits c dd b) = length (t_labels b)) \<longrightarrow>
        eval_accuracy s' = eval_accuracy s +
          count_eq (concat (map (batch_preds c dd) bs)) (concat (map t_labels bs)))"
  using assms
proof (induction bs arbitrary: s)
  case Nil
  then show ?case by (simp add: count_eq_def)
next
  case (Cons b bs)
  from Cons.prems obtain s1 where s1: "eval_step c dd b s = Inr s1"
    and rest: "eval_loop c dd bs s1 = Inr s'"
    by (auto simp: ebind_eq_Inr)
  note st = eval_step_batch [OF s1]
  note ih = Cons.IH [OF rest]
  have some: "full_logits s' \<noteq> None \<and> full_labels s' \<noteq> None"
  proof (cases "bs = []")
    case True
    with ih have "s' = s1" by simp
    then show ?thesis by (simp add: st)
  next
    case False
    with ih show ?thesis by simp
  qed
  have pl: "length (batch_preds c dd b) = length (batch_logits c dd b)"
    using emap_length [OF st(6)] .
  have acc: "eval_accuracy s' = eval_accuracy s +
      count_eq (concat (map (batch_preds c dd) (b # bs))) (concat (map t_labels (b # bs)))"
    if sh: "\<forall>x \<in> set (b # bs). length (batch_logits c dd x) = length (t_labels x)"
  proof -
    from sh have 1: "length (batch_logits c dd b) = length (t_labels b)" by simp
    from sh ih have 2: "eval_accuracy s' = eval_accuracy s1 +
        count_eq (concat (map (batch_preds c dd) bs)) (concat (map t_labels bs))"
      by simp
    from pl 1 have "length (batch_preds c dd b) = length (t_labels b)" by simp
    then show ?thesis by (simp add: 2 st(7) [OF 1] count_eq_append)
  qed
  have am: "emap argmax_row (concat (map (batch_logits c dd) (b # bs))) =
      Inr (concat (map (batch_preds c dd) (b # bs)))"
    using emap_append [OF st(6)] ih by simp
  show ?case
    using ih some am acc
    by (simp add: st(1,2,3,4,5) buf_def algebra_simps)
qed

section \<open>Properties of a whole run\<close>

lemma build_inputs_labels:
  "build_inputs dd b = Inr inputs \<Longrightarrow> inputs ''labels'' = Some (Tensor1 (t_labels b))"
  by (cases "str_contains ''baseline_'' dd")
    (auto simp: build_inputs_baseline build_inputs_other split: option.splits)

lemma eval_loop_calls:
  assumes "eval_loop c dd bs s = Inr s'" and "b \<in> set bs"
  shows "\<exists>inputs outputs. build_inputs dd b = Inr inputs \<and> model_call c inputs = Inr outputs \<and>
     batch_logits c dd b = out_logits outputs"
  using assms
proof (induction bs arbitrary: s)
  case Nil
  then show ?case by simp
next
  case (Cons x bs)
  from Cons.prems(1) obtain s1 where s1: "eval_step c dd x s = Inr s1"
    and rest: "eval_loop c dd bs s1 = Inr s'"
    by (auto simp: ebind_eq_Inr)
  show ?case
  proof (cases "b = x")
    case True
    from eval_step_Inr [OF s1] obtain outputs where
      "ebind (build_inputs dd x) (model_call c) = Inr outputs" by blast
    then show ?thesis
      unfolding True by (auto simp: ebind_eq_Inr batch_logits_def)
  next
    case False
    with Cons.prems(2) have "b \<in> set bs" by simp
    from Cons.IH [OF rest this] show ?thesis .
  qed
qed

lemma run_evaluation_Inr:
  assumes "run_evaluation c a ds = Inr (loss, acc, f1)"
  shows "\<exists>batches s prec recall.
     dataloader ds (eval_batch_size a) = Inr batches \<and>
     eval_loop c (data_dir a) batches init_state = Inr s \<and>
     get_metrics c (full_logits s) (full_labels s) = Inr (f1, prec, recall) \<and>
     nb_eval_steps s \<noteq> 0 \<and> nb_eval_examples s \<noteq> 0 \<and>
     loss = eval_loss s / real (nb_eval_steps s) \<and>
     acc = real (eval_accuracy s) / real (nb_eval_examples s)"
  using assms unfolding run_evaluation_def
  by (auto simp: ebind_eq_Inr py_div_def split: if_splits prod.splits)

lemma run_evaluation_core:
  assumes "run_evaluation c a ds = Inr (loss, acc, f1)"
  shows "\<exists>batches idxss s prec recall.
     dataloader ds (eval_batch_size a) = Inr batches \<and>
     batches = map (collate ds) idxss \<and> concat idxss = [0..<ds_len ds] \<and>
     length batches = (ds_len ds + nat (eval_batch_size a) - 1) div nat (eval_batch_size a) \<and>
     batches \<noteq> [] \<and> 0 < ds_len ds \<and>
     eval_loop c (data_dir a) batches init_state = Inr s \<and>
     get_metrics c (full_logits s) (full_labels s) = Inr (f1, prec, recall) \<and>
     full_logits s = Some (concat (map (batch_logits c (data_dir a)) batches)) \<and>
     full_labels s = Some (concat (map t_labels batches)) \<and>
     loss = sum_list (map (batch_loss c (data_dir a)) batches) / real (length batches) \<and>
     acc = real (eval_accuracy s) / real (ds_len ds)"
proof -
  from run_evaluation_Inr [OF assms] obtain batches s prec recall where
    dl: "dataloader ds (eval_batch_size a) = Inr batches"
    and lp: "eval_loop c (data_dir a) batches init_state = Inr s"
    and gm: "get_metrics c (full_logits s) (full_labels s) = Inr (f1, prec, recall)"
    and nz: "nb_eval_steps s \<noteq> 0" "nb_eval_examples s \<noteq> 0"
    and lo: "loss = eval_loss s / real (nb_eval_steps s)"
    and ac: "acc = real (eval_accuracy s) / real (nb_eval_examples s)"
    by blast
  from dataloader_batches [OF dl] obtain idxss where
    b: "batches = map (collate ds) idxss" and cc: "concat idxss = [0..<ds_len ds]"
    and len: "length idxss = (ds_len ds + nat (eval_batch_size a) - 1) div nat (eval_batch_size a)"
    by blast
  note inv = eval_loop_Inr [OF lp]
  from inv have steps: "nb_eval_steps s = length batches" by (simp add: init_state_def)
  from inv have "nb_eval_examples s = sum_list (map ds_len batches)" by (simp add: init_state_def)
  then have ex: "nb_eval_examples s = ds_len ds"
    using collate_len_sum [of ds idxss] by (simp add: b cc)
  from steps nz have ne: "batches \<noteq> []" by auto
  from ex nz have pos: "0 < ds_len ds" by simp
  from inv ne have "full_logits s \<noteq> None" "full_labels s \<noteq> None" by simp_all
  moreover from inv have "buf (full_logits s) = concat (map (batch_logits c (data_dir a)) batches)"
    "buf (full_labels s) = concat (map t_labels batches)"
    by (simp_all add: init_state_def buf_def)
  ultimately have fl: "full_logits s = Some (concat (map (batch_logits c (data_dir a)) batches))"
    and fb: "full_labels s = Some (concat (map t_labels batches))"
    by (auto simp: buf_def)
  from inv have "eval_loss s = sum_list (map (batch_loss c (data_dir a)) batches)"
    by (simp add: init_state_def)
  with lo steps have lo': "loss = sum_list (map (batch_loss c (data_dir a)) batches) / real (length batches)"
    by simp
  from ac ex have ac': "acc = real (eval_accuracy s) / real (ds_len ds)" by simp
  from len b have len': "length batches = (ds_len ds + nat (eval_batch_size a) - 1) div nat (eval_batch_size a)"
    by simp
  from dl b cc len' ne pos lp gm fl fb lo' ac' show ?thesis by blast
qed

section \<open>The example run\<close>

lemma example_same_first_dim: "same_first_dim example_ds"
  by (simp add: same_first_dim_def example_ds_def)

lemma example_ds_len: "ds_len example_ds = 5"
  by (simp add: ds_len_def example_ds_def)

lemma upt_5: "[0..<5] = [0, 1, 2, 3, 4]"
  by code_simp

lemma example_batches_2:
  "dataloader example_ds 2 = Inr [collate example_ds [0, 1], collate example_ds [2, 3], collate example_ds [4]]"
  by (simp add: dataloader_def sequential_sampler_def example_ds_len upt_5)

lemma example_batches_1:
  "dataloader example_ds 1 = Inr [collate example_ds [0], collate example_ds [1], collate example_ds [2],
     collate example_ds [3], collate example_ds [4]]"
  by (simp add: dataloader_def sequential_sampler_def example_ds_len upt_5)

lemma example_batches_5:
  "dataloader example_ds 5 = Inr [collate example_ds [0, 1, 2, 3, 4]]"
  by (simp add: dataloader_def sequential_sampler_def example_ds_len upt_5)

lemma example_model_call:
  "ebind (build_inputs ''data'' (collate example_ds idxs)) (model_call example_collab) =
     Inr \<lparr>out_loss = [real (length idxs)],
          out_logits = map (\<lambda>i. [0, real_of_int (sum_list (t_input_ids example_ds ! i))]) idxs\<rparr>"
  by (simp add: build_inputs_def collate_def example_collab_def example_model_def example_ds_def
      comp_def)

lemma example_scores:
  "f1_score example_collab = example_score (\<lambda>(tp, fp, fn). ratio (2 * tp) (2 * tp + fp + fn))"
  "precision_score example_collab = example_score (\<lambda>(tp, fp, fn). ratio tp (tp + fp))"
  "recall_score example_collab = example_score (\<lambda>(tp, fp, fn). ratio tp (tp + fn))"
  by (simp_all add: example_collab_def)

lemmas example_step_defs =
  eval_step_def build_inputs_def collate_def example_collab_def example_model_def example_ds_def
  init_state_def accuracy_def np_argmax_def argmax_row_def np_sum_eq_def count_eq_def
  np_append_rows_def tensor_mean_def Let_def

lemmas example_metric_defs =
  get_metrics_def accuracy_def np_argmax_def argmax_row_def np_sum_eq_def count_eq_def
  example_scores example_score_def tp_fp_fn_def ratio_def py_div_def

lemma example_loop_2:
  "eval_loop example_collab ''data''
     [collate example_ds [0, 1], collate example_ds [2, 3], collate example_ds [4]] init_state =
   Inr \<lparr>eval_loss = 5, eval_accuracy = 3, nb_eval_steps = 3, nb_eval_examples = 5,
        full_logits = Some [[0, 5], [0, 4], [0, 9], [0, 2], [0, 8]],
        full_labels = Some [1, 0, 1, 1, 0]\<rparr>"
  by (simp add: example_step_defs)

lemma example_loop_1:
  "eval_loop example_collab ''data''
     [collate example_ds [0], collate example_ds [1], collate example_ds [2],
      collate example_ds [3], collate example_ds [4]] init_state =
   Inr \<lparr>eval_loss = 5, eval_accuracy = 3, nb_eval_steps = 5, nb_eval_examples = 5,
        full_logits = Some [[0, 5], [0, 4], [0, 9], [0, 2], [0, 8]],
        full_labels = Some [1, 0, 1, 1, 0]\<rparr>"
  by (simp add: example_step_defs)

lemma example_loop_5:
  "eval_loop example_collab ''data'' [collate example_ds [0, 1, 2, 3, 4]] init_state =
   Inr \<lparr>eval_loss = 5, eval_accuracy = 3, nb_eval_steps = 1, nb_eval_examples = 5,
        full_logits = Some [[0, 5], [0, 4], [0, 9], [0, 2], [0, 8]],
        full_labels = Some [1, 0, 1, 1, 0]\<rparr>"
  by (simp add: example_step_defs)

lemma example_data_dir:
  "data_dir example_args = ''data''"
  "eval_batch_size example_args = 2"
  "data_dir (example_args\<lparr>eval_batch_size := k\<rparr>) = ''data''"
  "eval_batch_size (example_args\<lparr>eval_batch_size := k\<rparr>) = k"
  by (simp_all add: example_args_def)

lemma example_run_2:
  "run_evaluation example_collab example_args example_ds = Inr (5 / 3, 3 / 5, 3 / 4)"
  apply (simp only: run_evaluation_def example_data_dir example_batches_2 ebind_simps example_loop_2)
  apply (simp add: example_metric_defs)
  done

lemma example_run_1:
  "run_evaluation example_collab (example_args\<lparr>eval_batch_size := 1\<rparr>) example_ds =
     Inr (1, 3 / 5, 3 / 4)"
  apply (simp only: run_evaluation_def example_data_dir example_batches_1 ebind_simps example_loop_1)
  apply (simp add: example_metric_defs)
  done

lemma example_run_5:
  "run_evaluation example_collab (example_args\<lparr>eval_batch_size := 5\<rparr>) example_ds =
     Inr (5, 3 / 5, 3 / 4)"
  apply (simp only: run_evaluation_def example_data_dir example_batches_5 ebind_simps example_loop_5)
  apply (simp add: example_metric_defs)
  done

section \<open>Loss, buffers and accuracy of a run\<close>

text \<open>
  Claim C3. Whenever \<open>evaluate\<close> returns on a dataset, the loader gave at least one
  batch, \<open>ceil(n / batch_size)\<close> of them for \<open>n\<close> rows (so a smaller last batch counts as
  one batch), the returned loss is the sum of the batches' mean losses divided by the
  number of batches, and the returned accuracy is the sum of the batches' correct counts
  divided by the number of rows.
\<close>

theorem loss_divided_by_batch_count:
  assumes "run_evaluation c a ds = Inr (loss, acc, f1)"
  shows "\<exists>batches s.
     dataloader ds (eval_batch_size a) = Inr batches \<and>
     eval_loop c (data_dir a) batches init_state = Inr s \<and>
     batches \<noteq> [] \<and>
     length batches = (ds_len ds + nat (eval_batch_size a) - 1) div nat (eval_batch_size a) \<and>
     loss = sum_list (map (batch_loss c (data_dir a)) batches) / real (length batches) \<and>
     0 < ds_len ds \<and>
     acc = real (eval_accuracy s) / real (ds_len ds)"
  using run_evaluation_core [OF assms] by blast

lemma example_batch_losses:
  "map (batch_loss example_collab ''data'')
     [collate example_ds [0, 1], collate example_ds [2, 3], collate example_ds [4]] = [2, 2, 1]"
  by (simp add: batch_loss_def example_model_call tensor_mean_def)

theorem loss_divided_by_batch_count_witness:
  "run_evaluation example_collab example_args example_ds = Inr (5 / 3, 3 / 5, 3 / 4) \<and>
   (\<exists>batches. dataloader example_ds (eval_batch_size example_args) = Inr batches \<and>
      length batches = 3 \<and> ds_len example_ds = 5 \<and>
      map (batch_loss example_collab (data_dir example_args)) batches = [2, 2, 1] \<and>
      (5 / 3 :: real) = sum_list (map (batch_loss example_collab (data_dir example_args)) batches) /
         real (length batches))"
proof -
  from loss_divided_by_batch_count [OF example_run_2] obtain batches where
    d: "dataloader example_ds (eval_batch_size example_args) = Inr batches"
    and l: "(5 / 3 :: real) = sum_list (map (batch_loss example_collab (data_dir example_args)) batches) /
         real (length batches)"
    by blast
  from d have b: "batches = [collate example_ds [0, 1], collate example_ds [2, 3], collate example_ds [4]]"
    by (simp add: example_data_dir example_batches_2)
  have n: "length batches = 3" by (simp add: b)
  have m: "map (batch_loss example_collab (data_dir example_args)) batches = [2, 2, 1]"
    by (simp only: b example_data_dir example_batch_losses)
  show ?thesis
    using example_run_2 d n example_ds_len m l
    by (intro conjI exI [of _ batches]) assumption+
qed

text \<open>
  Claim C5. The batches of the loader are the rows of the dataset taken in order: the
  index lists of the batches, one after the other, are \<open>0, ..., n - 1\<close>. After the loop
  the label buffer is the label tensor of the dataset, so its row \<open>i\<close> is the label of
  dataset element \<open>i\<close> for every \<open>i < n\<close>, and the logits buffer is the model's logits
  of the batches in the order of the batches.
\<close>

theorem buffers_preserve_row_order:
  assumes "same_first_dim ds" and "dataloader ds bs = Inr batches"
    and "eval_loop c dd batches init_state = Inr s"
  shows "(\<exists>idxss. batches = map (collate ds) idxss \<and> concat idxss = [0..<ds_len ds]) \<and>
     buf (full_labels s) = t_labels ds \<and>
     buf (full_logits s) = concat (map (batch_logits c dd) batches) \<and>
     (\<forall>i < ds_len ds. \<exists>ls. full_labels s = Some ls \<and> length ls = ds_len ds \<and>
        ls ! i = t_labels ds ! i)"
proof -
  from dataloader_batches [OF assms(2)] obtain idxss where
    b: "batches = map (collate ds) idxss" and cc: "concat idxss = [0..<ds_len ds]"
    by blast
  note inv = eval_loop_Inr [OF assms(3)]
  have lab: "concat (map t_labels batches) = t_labels ds"
    unfolding b using assms(1) cc by (rule all_labels_in_order)
  from inv lab have fl: "buf (full_labels s) = t_labels ds"
    by (simp add: init_state_def buf_def)
  from inv have fg: "buf (full_logits s) = concat (map (batch_logits c dd) batches)"
    by (simp add: init_state_def buf_def)
  have len: "length (t_labels ds) = ds_len ds"
    using assms(1) by (simp add: same_first_dim_def ds_len_def)
  have rows: "\<exists>ls. full_labels s = Some ls \<and> length ls = ds_len ds \<and> ls ! i = t_labels ds ! i"
    if "i < ds_len ds" for i
  proof -
    have "idxss \<noteq> []"
    proof
      assume "idxss = []"
      with cc have "[0..<ds_len ds] = []" by simp
      with that show False by simp
    qed
    then have "batches \<noteq> []" by (simp add: b)
    with inv have "full_labels s \<noteq> None" by simp
    then obtain ls where ls: "full_labels s = Some ls" by auto
    with fl have "ls = t_labels ds" by (simp add: buf_def)
    with ls len show ?thesis by simp
  qed
  from b cc fl fg rows show ?thesis by blast
qed

theorem buffers_preserve_row_order_witness:
  "same_first_dim example_ds \<and>
   dataloader example_ds 2 =
     Inr [collate example_ds [0, 1], collate example_ds [2, 3], collate example_ds [4]] \<and>
   eval_loop example_collab ''data''
     [collate example_ds [0, 1], collate example_ds [2, 3], collate example_ds [4]] init_state =
   Inr \<lparr>eval_loss = 5, eval_accuracy = 3, nb_eval_steps = 3, nb_eval_examples = 5,
        full_logits = Some [[0, 5], [0, 4], [0, 9], [0, 2], [0, 8]],
        full_labels = Some [1, 0, 1, 1, 0]\<rparr> \<and>
   buf (Some [1, 0, 1, 1, 0]) = t_labels example_ds \<and>
   (\<exists>idxss. [collate example_ds [0, 1], collate example_ds [2, 3], collate example_ds [4]] =
       map (collate example_ds) idxss \<and> concat idxss = [0..<ds_len example_ds])"
proof -
  from buffers_preserve_row_order [OF example_same_first_dim example_batches_2 example_loop_2]
  have "(\<exists>idxss. [collate example_ds [0, 1], collate example_ds [2, 3], collate example_ds [4]] =
       map (collate example_ds) idxss \<and> concat idxss = [0..<ds_len example_ds])"
    and "buf (Some [1, 0, 1, 1, 0]) = t_labels example_ds"
    by simp_all
  with example_same_first_dim example_batches_2 example_loop_2 show ?thesis by blast
qed

lemma collate_same_first_dim: "same_first_dim (collate ds idxs)"
  by (simp add: same_first_dim_def collate_def split: option.splits)

lemma collate_lengths:
  "ds_len (collate ds idxs) = length idxs"
  "length (t_labels (collate ds idxs)) = length idxs"
  by (simp_all add: collate_def ds_len_def)

lemma concat_length_cong:
  "(\<forall>b \<in> set bs. length (f b) = length (g b)) \<Longrightarrow>
     length (concat (map f bs)) = length (concat (map g bs))"
  by (induction bs) simp_all

lemma concat_map_collate:
  "(\<forall>idxs \<in> set idxss. f (collate ds idxs) = map g idxs) \<Longrightarrow>
     concat (map f (map (collate ds) idxss)) = map g (concat idxss)"
  by (induction idxss) simp_all

lemma run_accuracy:
  assumes wf: "same_first_dim ds"
    and run: "run_evaluation c a ds = Inr (loss, acc, f1)"
    and sh: "\<forall>idxs inputs outputs. (\<forall>i \<in> set idxs. i < ds_len ds) \<longrightarrow>
        build_inputs (data_dir a) (collate ds idxs) = Inr inputs \<longrightarrow>
        model_call c inputs = Inr outputs \<longrightarrow> length (out_logits outputs) = length idxs"
  shows "\<exists>batches idxss s logits preds prec recall.
     dataloader ds (eval_batch_size a) = Inr batches \<and>
     batches = map (collate ds) idxss \<and> concat idxss = [0..<ds_len ds] \<and>
     eval_loop c (data_dir a) batches init_state = Inr s \<and>
     full_logits s = Some logits \<and>
     logits = concat (map (batch_logits c (data_dir a)) batches) \<and>
     full_labels s = Some (t_labels ds) \<and>
     length logits = ds_len ds \<and>
     np_argmax (Some logits) = Inr preds \<and>
     acc = real (count_eq preds (t_labels ds)) / real (ds_len ds) \<and>
     get_metrics c (Some logits) (Some (t_labels ds)) = Inr (f1, prec, recall)"
proof -
  let ?dd = "data_dir a"
  from run_evaluation_core [OF run] obtain batches idxss s prec recall where
    dl: "dataloader ds (eval_batch_size a) = Inr batches"
    and b: "batches = map (collate ds) idxss" and cc: "concat idxss = [0..<ds_len ds]"
    and lp: "eval_loop c ?dd batches init_state = Inr s"
    and gm: "get_metrics c (full_logits s) (full_labels s) = Inr (f1, prec, recall)"
    and fl: "full_logits s = Some (concat (map (batch_logits c ?dd) batches))"
    and fb: "full_labels s = Some (concat (map t_labels batches))"
    and ac: "acc = real (eval_accuracy s) / real (ds_len ds)"
    by blast
  have lab: "concat (map t_labels batches) = t_labels ds"
    unfolding b using wf cc by (rule all_labels_in_order)
  have shape: "\<forall>x \<in> set batches. length (batch_logits c ?dd x) = length (t_labels x)"
  proof
    fix x assume x: "x \<in> set batches"
    then obtain idxs where i: "idxs \<in> set idxss" and xi: "x = collate ds idxs"
      by (auto simp: b)
    from i have "set idxs \<subseteq> set (concat idxss)" by auto
    then have rng: "\<forall>i \<in> set idxs. i < ds_len ds" by (auto simp: cc)
    from eval_loop_calls [OF lp x] obtain inputs outputs where
      "build_inputs ?dd x = Inr inputs" "model_call c inputs = Inr outputs"
      "batch_logits c ?dd x = out_logits outputs"
      by blast
    with sh rng show "length (batch_logits c ?dd x) = length (t_labels x)"
      by (simp add: xi collate_lengths)
  qed
  note inv = eval_loop_Inr [OF lp]
  let ?logits = "concat (map (batch_logits c ?dd) batches)"
  let ?preds = "concat (map (batch_preds c ?dd) batches)"
  from inv have am: "np_argmax (Some ?logits) = Inr ?preds" by (simp add: np_argmax_def)
  from inv shape have "eval_accuracy s = count_eq ?preds (concat (map t_labels batches))"
    by (simp add: init_state_def)
  with ac lab have ac': "acc = real (count_eq ?preds (t_labels ds)) / real (ds_len ds)" by simp
  have "length ?logits = length (concat (map t_labels batches))"
    using shape by (rule concat_length_cong)
  with lab wf have len: "length ?logits = ds_len ds"
    by (simp add: same_first_dim_def ds_len_def)
  from gm fl fb lab have gm': "get_metrics c (Some ?logits) (Some (t_labels ds)) = Inr (f1, prec, recall)"
    by simp
  from fb lab have fb': "full_labels s = Some (t_labels ds)" by simp
  from dl b cc lp fl fb' len am ac' gm' show ?thesis by blast
qed

lemma run_accuracy_per_row:
  assumes wf: "same_first_dim ds"
    and run: "run_evaluation c a ds = Inr (loss, acc, f1)"
    and pr: "per_row c ds (data_dir a) g"
  shows "\<exists>preds prec recall.
     np_argmax (Some (map g [0..<ds_len ds])) = Inr preds \<and>
     acc = real (count_eq preds (t_labels ds)) / real (ds_len ds) \<and>
     get_metrics c (Some (map g [0..<ds_len ds])) (Some (t_labels ds)) = Inr (f1, prec, recall)"
proof -
  let ?dd = "data_dir a"
  have sh: "\<forall>idxs inputs outputs. (\<forall>i \<in> set idxs. i < ds_len ds) \<longrightarrow>
        build_inputs ?dd (collate ds idxs) = Inr inputs \<longrightarrow>
        model_call c inputs = Inr outputs \<longrightarrow> length (out_logits outputs) = length idxs"
  proof (intro allI impI)
    fix idxs inputs outputs
    assume "\<forall>i \<in> set idxs. i < ds_len ds" "build_inputs ?dd (collate ds idxs) = Inr inputs"
      "model_call c inputs = Inr outputs"
    with pr have "out_logits outputs = map g idxs" unfolding per_row_def by blast
    then show "length (out_logits outputs) = length idxs" by simp
  qed
  from run_accuracy [OF wf run sh] obtain batches idxss s logits preds prec recall where
    b: "batches = map (collate ds) idxss" and cc: "concat idxss = [0..<ds_len ds]"
    and lp: "eval_loop c ?dd batches init_state = Inr s"
    and lg: "logits = concat (map (batch_logits c ?dd) batches)"
    and am: "np_argmax (Some logits) = Inr preds"
    and ac: "acc = real (count_eq preds (t_labels ds)) / real (ds_len ds)"
    and gm: "get_metrics c (Some logits) (Some (t_labels ds)) = Inr (f1, prec, recall)"
    by blast
  have "\<forall>idxs \<in> set idxss. batch_logits c ?dd (collate ds idxs) = map g idxs"
  proof
    fix idxs assume i: "idxs \<in> set idxss"
    then have "set idxs \<subseteq> set (concat idxss)" by auto
    then have rng: "\<forall>i \<in> set idxs. i < ds_len ds" by (auto simp: cc)
    from i have "collate ds idxs \<in> set batches" by (simp add: b)
    from eval_loop_calls [OF lp this] obtain inputs outputs where
      "build_inputs ?dd (collate ds idxs) = Inr inputs" "model_call c inputs = Inr outputs"
      "batch_logits c ?dd (collate ds idxs) = out_logits outputs"
      by blast
    moreover from this pr rng have "out_logits outputs = map g idxs"
      unfolding per_row_def by blast
    ultimately show "batch_logits c ?dd (collate ds idxs) = map g idxs" by simp
  qed
  then have "logits = map g (concat idxss)"
    unfolding lg b by (rule concat_map_collate)
  then have "logits = map g [0..<ds_len ds]" by (simp add: cc)
  with am ac gm show ?thesis by blast
qed

lemma model_shaped_batches:
  assumes "model_shaped c" and "build_inputs dd (collate ds idxs) = Inr inputs"
    and "model_call c inputs = Inr outputs"
  shows "length (out_logits outputs) = length idxs"
proof -
  from assms collate_same_first_dim [of ds idxs]
  have "length (out_logits outputs) = ds_len (collate ds idxs)"
    unfolding model_shaped_def by blast
  then show ?thesis by (simp add: collate_lengths)
qed

section \<open>The argmax and the count of correct rows\<close>

lemma argmax_from_first:
  assumes "i = length pre" and "best_i < length pre" and "pre ! best_i = best"
    and "\<forall>j < length pre. pre ! j \<le> best" and "\<forall>j < best_i. pre ! j < best"
  shows "is_first_argmax (pre @ ys) (argmax_from best best_i i ys)"
  using assms
proof (induction ys arbitrary: pre best best_i i)
  case Nil
  then show ?case by (simp add: is_first_argmax_def)
next
  case (Cons y ys)
  show ?case
  proof (cases "best < y")
    case True
    have "is_first_argmax ((pre @ [y]) @ ys) (argmax_from y i (Suc i) ys)"
    proof (rule Cons.IH)
      show "Suc i = length (pre @ [y])" using Cons.prems(1) by simp
      show "i < length (pre @ [y])" using Cons.prems(1) by simp
      show "(pre @ [y]) ! i = y" using Cons.prems(1) by simp
      have below: "pre ! j < y" if "j < length pre" for j
      proof -
        from Cons.prems(4) that have "pre ! j \<le> best" by simp
        with True show ?thesis by simp
      qed
      show "\<forall>j < length (pre @ [y]). (pre @ [y]) ! j \<le> y"
      proof (intro allI impI)
        fix j assume j: "j < length (pre @ [y])"
        show "(pre @ [y]) ! j \<le> y"
        proof (cases "j < length pre")
          case True
          with below [OF True] show ?thesis by (simp add: nth_append)
        next
          case False
          with j have "j = length pre" by simp
          then show ?thesis by simp
        qed
      qed
      show "\<forall>j < i. (pre @ [y]) ! j < y"
        using Cons.prems(1) below by (simp add: nth_append)
    qed
    with True show ?thesis by simp
  next
    case False
    have "is_first_argmax ((pre @ [y]) @ ys) (argmax_from best best_i (Suc i) ys)"
    proof (rule Cons.IH)
      show "Suc i = length (pre @ [y])" using Cons.prems(1) by simp
      show "best_i < length (pre @ [y])" using Cons.prems(2) by simp
      show "(pre @ [y]) ! best_i = best" using Cons.prems(2,3) by (simp add: nth_append)
      show "\<forall>j < length (pre @ [y]). (pre @ [y]) ! j \<le> best"
        using Cons.prems(4) False by (auto simp: nth_append less_Suc_eq)
      show "\<forall>j < best_i. (pre @ [y]) ! j < best"
        using Cons.prems(2,5) by (auto simp: nth_append)
    qed
    with False show ?thesis by simp
  qed
qed

lemma argmax_row_first:
  assumes "argmax_row row = Inr k"
  shows "is_first_argmax row k"
proof (cases row)
  case Nil
  with assms show ?thesis by (simp add: argmax_row_def)
next
  case (Cons x xs)
  with assms have k: "k = argmax_from x 0 1 xs" by (simp add: argmax_row_def)
  have "is_first_argmax ([x] @ xs) (argmax_from x 0 1 xs)"
    by (rule argmax_from_first) simp_all
  with k Cons show ?thesis by simp
qed

lemma emap_nth:
  "emap f xs = Inr ys \<Longrightarrow> i < length xs \<Longrightarrow> f (xs ! i) = Inr (ys ! i)"
proof (induction xs arbitrary: ys i)
  case Nil
  then show ?case by simp
next
  case (Cons x xs)
  from Cons.prems(1) obtain y ys' where y: "f x = Inr y" and r: "emap f xs = Inr ys'"
    and ys: "ys = y # ys'"
    by (auto simp: ebind_eq_Inr)
  show ?case
  proof (cases i)
    case 0
    then show ?thesis by (simp add: y ys)
  next
    case (Suc j)
    with Cons.prems(2) have "j < length xs" by simp
    from Cons.IH [OF r this] show ?thesis by (simp add: Suc ys)
  qed
qed

lemma np_argmax_first:
  assumes "np_argmax (Some logits) = Inr preds"
  shows "length preds = length logits \<and> (\<forall>i < length logits. is_first_argmax (logits ! i) (preds ! i))"
proof -
  from assms have e: "emap argmax_row logits = Inr preds" by (simp add: np_argmax_def)
  from emap_length [OF e] emap_nth [OF e] show ?thesis
    by (auto intro: argmax_row_first)
qed

lemma count_eq_card:
  assumes "length ps = length ls"
  shows "count_eq ps ls = card {i. i < length ls \<and> int (ps ! i) = ls ! i}"
proof -
  have "{i. i < length (zip ps ls) \<and> (case zip ps ls ! i of (p, l) \<Rightarrow> int p = l)} =
      {i. i < length ls \<and> int (ps ! i) = ls ! i}"
    using assms by auto
  then show ?thesis
    unfolding count_eq_def by (simp add: length_filter_conv_card)
qed

text \<open>
  Claim C1. On a dataset whose tensors agree on their first dimension, whenever
  \<open>evaluate\<close> returns an accuracy with a model that gives one logits row per batch row,
  the accumulated logits have one row per dataset row, the prediction for row \<open>i\<close> is
  the first index of a greatest entry of logits row \<open>i\<close>, and the accuracy is the number
  of rows \<open>i\<close> whose prediction equals the gold label of dataset element \<open>i\<close>, divided
  by the number of rows of the dataset. When moreover the logits row of a dataset
  element does not depend on its batch, any other run on the same dataset and data
  directory that returns (with any other batch size, 1 and the dataset size included)
  returns the same accuracy and the same F1.
\<close>

theorem accuracy_is_correct_rows_over_total:
  assumes "same_first_dim ds" and "run_evaluation c a ds = Inr (loss, acc, f1)"
  shows "(model_shaped c \<longrightarrow>
      (\<exists>batches s logits preds.
         dataloader ds (eval_batch_size a) = Inr batches \<and>
         eval_loop c (data_dir a) batches init_state = Inr s \<and>
         full_logits s = Some logits \<and> full_labels s = Some (t_labels ds) \<and>
         length logits = ds_len ds \<and> length preds = ds_len ds \<and>
         np_argmax (Some logits) = Inr preds \<and>
         (\<forall>i < ds_len ds. is_first_argmax (logits ! i) (preds ! i)) \<and>
         acc = real (count_eq preds (t_labels ds)) / real (ds_len ds) \<and>
         acc = real (card {i. i < ds_len ds \<and> int (preds ! i) = t_labels ds ! i}) /
               real (ds_len ds))) \<and>
    (\<forall>g a' loss' acc' f1'.
       per_row c ds (data_dir a) g \<and> data_dir a' = data_dir a \<and>
       run_evaluation c a' ds = Inr (loss', acc', f1') \<longrightarrow> acc' = acc \<and> f1' = f1)"
proof (intro conjI impI allI)
  assume ms: "model_shaped c"
  have sh: "\<forall>idxs inputs outputs. (\<forall>i \<in> set idxs. i < ds_len ds) \<longrightarrow>
        build_inputs (data_dir a) (collate ds idxs) = Inr inputs \<longrightarrow>
        model_call c inputs = Inr outputs \<longrightarrow> length (out_logits outputs) = length idxs"
    using model_shaped_batches [OF ms] by blast
  from run_accuracy [OF assms sh] obtain batches s logits preds where
    r: "dataloader ds (eval_batch_size a) = Inr batches"
      "eval_loop c (data_dir a) batches init_state = Inr s"
      "full_logits s = Some logits" "full_labels s = Some (t_labels ds)"
      "length logits = ds_len ds" "np_argmax (Some logits) = Inr preds"
      "acc = real (count_eq preds (t_labels ds)) / real (ds_len ds)"
    by blast
  from np_argmax_first [OF r(6)] r(5) have pl: "length preds = ds_len ds"
    and first: "\<forall>i < ds_len ds. is_first_argmax (logits ! i) (preds ! i)"
    by simp_all
  have ll: "length (t_labels ds) = ds_len ds"
    using assms(1) by (simp add: same_first_dim_def ds_len_def)
  with pl have "count_eq preds (t_labels ds) =
      card {i. i < ds_len ds \<and> int (preds ! i) = t_labels ds ! i}"
    using count_eq_card [of preds "t_labels ds"] by simp
  with r(7) have c: "acc = real (card {i. i < ds_len ds \<and> int (preds ! i) = t_labels ds ! i}) /
      real (ds_len ds)"
    by simp
  from r pl first c
  show "\<exists>batches s logits preds.
         dataloader ds (eval_batch_size a) = Inr batches \<and>
         eval_loop c (data_dir a) batches init_state = Inr s \<and>
         full_logits s = Some logits \<and> full_labels s = Some (t_labels ds) \<and>
         length logits = ds_len ds \<and> length preds = ds_len ds \<and>
         np_argmax (Some logits) = Inr preds \<and>
         (\<forall>i < ds_len ds. is_first_argmax (logits ! i) (preds ! i)) \<and>
         acc = real (count_eq preds (t_labels ds)) / real (ds_len ds) \<and>
         acc = real (card {i. i < ds_len ds \<and> int (preds ! i) = t_labels ds ! i}) /
               real (ds_len ds)"
    by blast
next
  fix g a' loss' acc' f1'
  assume h: "per_row c ds (data_dir a) g \<and> data_dir a' = data_dir a \<and>
       run_evaluation c a' ds = Inr (loss', acc', f1')"
  then have pr: "per_row c ds (data_dir a) g" and pr': "per_row c ds (data_dir a') g"
    and run': "run_evaluation c a' ds = Inr (loss', acc', f1')"
    by simp_all
  from run_accuracy_per_row [OF assms pr] obtain preds prec recall where
    1: "np_argmax (Some (map g [0..<ds_len ds])) = Inr preds"
    "acc = real (count_eq preds (t_labels ds)) / real (ds_len ds)"
    "get_metrics c (Some (map g [0..<ds_len ds])) (Some (t_labels ds)) = Inr (f1, prec, recall)"
    by blast
  from run_accuracy_per_row [OF assms(1) run' pr'] obtain preds' prec' recall' where
    2: "np_argmax (Some (map g [0..<ds_len ds])) = Inr preds'"
    "acc' = real (count_eq preds' (t_labels ds)) / real (ds_len ds)"
    "get_metrics c (Some (map g [0..<ds_len ds])) (Some (t_labels ds)) = Inr (f1', prec', recall')"
    by blast
  from 1 2 show "acc' = acc" by simp
  from 1 2 show "f1' = f1" by simp
qed

lemma build_inputs_ids:
  "build_inputs dd b = Inr inputs \<Longrightarrow> inputs ''input_ids'' = Some (Tensor2 (t_input_ids b))"
  by (cases "str_contains ''baseline_'' dd")
    (auto simp: build_inputs_baseline build_inputs_other split: option.splits)

lemma mixed_same_first_dim: "same_first_dim example_ds_mixed"
  by (simp add: same_first_dim_def example_ds_mixed_def)

lemma mixed_ds_len: "ds_len example_ds_mixed = 5"
  by (simp add: ds_len_def example_ds_mixed_def)

lemma mixed_batches_1:
  "dataloader example_ds_mixed 1 =
     Inr [collate example_ds_mixed [0], collate example_ds_mixed [1], collate example_ds_mixed [2],
          collate example_ds_mixed [3], collate example_ds_mixed [4]]"
  by (simp add: dataloader_def sequential_sampler_def mixed_ds_len upt_5)

lemma mixed_batches_5:
  "dataloader example_ds_mixed 5 = Inr [collate example_ds_mixed [0, 1, 2, 3, 4]]"
  by (simp add: dataloader_def sequential_sampler_def mixed_ds_len upt_5)

lemma mixed_scores:
  "f1_score example_collab_ids = example_score (\<lambda>(tp, fp, fn). ratio (2 * tp) (2 * tp + fp + fn))"
  "precision_score example_collab_ids = example_score (\<lambda>(tp, fp, fn). ratio tp (tp + fp))"
  "recall_score example_collab_ids = example_score (\<lambda>(tp, fp, fn). ratio tp (tp + fn))"
  by (simp_all add: example_collab_ids_def example_collab_def)

lemmas mixed_step_defs =
  eval_step_def build_inputs_def collate_def example_collab_ids_def example_collab_def
  example_model_ids_def example_ds_mixed_def
  init_state_def accuracy_def np_argmax_def argmax_row_def np_sum_eq_def count_eq_def
  np_append_rows_def tensor_mean_def Let_def

lemmas mixed_metric_defs =
  get_metrics_def accuracy_def np_argmax_def argmax_row_def np_sum_eq_def count_eq_def
  mixed_scores example_score_def tp_fp_fn_def ratio_def py_div_def

lemma mixed_loop_1:
  "eval_loop example_collab_ids ''data''
     [collate example_ds_mixed [0], collate example_ds_mixed [1], collate example_ds_mixed [2],
      collate example_ds_mixed [3], collate example_ds_mixed [4]] init_state =
   Inr \<lparr>eval_loss = 5, eval_accuracy = 4, nb_eval_steps = 5, nb_eval_examples = 5,
        full_logits = Some [[1, 3], [2, 2], [0, 5], [7, 1], [4, 6]],
        full_labels = Some [1, 0, 0, 0, 1]\<rparr>"
  by (simp add: mixed_step_defs)

lemma mixed_loop_5:
  "eval_loop example_collab_ids ''data'' [collate example_ds_mixed [0, 1, 2, 3, 4]] init_state =
   Inr \<lparr>eval_loss = 5, eval_accuracy = 4, nb_eval_steps = 1, nb_eval_examples = 5,
        full_logits = Some [[1, 3], [2, 2], [0, 5], [7, 1], [4, 6]],
        full_labels = Some [1, 0, 0, 0, 1]\<rparr>"
  by (simp add: mixed_step_defs)

lemma mixed_run_1:
  "run_evaluation example_collab_ids (example_args\<lparr>eval_batch_size := 1\<rparr>) example_ds_mixed =
     Inr (1, 4 / 5, 4 / 5)"
  apply (simp only: run_evaluation_def example_data_dir mixed_batches_1 ebind_simps mixed_loop_1)
  apply (simp add: mixed_metric_defs)
  done

lemma mixed_run_5:
  "run_evaluation example_collab_ids (example_args\<lparr>eval_batch_size := 5\<rparr>) example_ds_mixed =
     Inr (5, 4 / 5, 4 / 5)"
  apply (simp only: run_evaluation_def example_data_dir mixed_batches_5 ebind_simps mixed_loop_5)
  apply (simp add: mixed_metric_defs)
  done

lemma mixed_argmax:
  "np_argmax (Some [[1, 3], [2, 2], [0, 5], [7, 1], [4, 6]]) = Inr [1, 0, 1, 0, 1]"
  by (simp add: np_argmax_def argmax_row_def)

lemma mixed_model_logits:
  assumes "build_inputs dd b = Inr inputs" and "model_call example_collab_ids inputs = Inr outputs"
  shows "out_logits outputs = map (map real_of_int) (t_input_ids b)"
  using assms(2) build_inputs_ids [OF assms(1)]
  by (auto simp: example_collab_ids_def example_model_ids_def)

lemma mixed_model_shaped: "model_shaped example_collab_ids"
  unfolding model_shaped_def
  by (auto simp: mixed_model_logits ds_len_def)

lemma mixed_per_row:
  "per_row example_collab_ids example_ds_mixed ''data''
     (\<lambda>i. map real_of_int (t_input_ids example_ds_mixed ! i))"
  unfolding per_row_def
  by (auto simp: mixed_model_logits collate_def)

theorem accuracy_is_correct_rows_over_total_witness:
  "same_first_dim example_ds_mixed \<and> model_shaped example_collab_ids \<and>
   per_row example_collab_ids example_ds_mixed (data_dir (example_args\<lparr>eval_batch_size := 1\<rparr>))
     (\<lambda>i. map real_of_int (t_input_ids example_ds_mixed ! i)) \<and>
   run_evaluation example_collab_ids (example_args\<lparr>eval_batch_size := 1\<rparr>) example_ds_mixed =
     Inr (1, 4 / 5, 4 / 5) \<and>
   run_evaluation example_collab_ids
     (example_args\<lparr>eval_batch_size := int (ds_len example_ds_mixed)\<rparr>) example_ds_mixed =
     Inr (5, 4 / 5, 4 / 5) \<and>
   np_argmax (Some [[1, 3], [2, 2], [0, 5], [7, 1], [4, 6]]) = Inr [1, 0, 1, 0, 1] \<and>
   is_first_argmax [2, 2] 0 \<and> is_first_argmax [4, 6] 1 \<and>
   (4 / 5 :: real) =
     real (card {i. i < 5 \<and> int ([1, 0, 1, 0, 1] ! i) = [1, 0, 0, 0, 1] ! i}) / real (5 :: nat)"
proof -
  let ?a1 = "example_args\<lparr>eval_batch_size := 1\<rparr>"
  let ?a5 = "example_args\<lparr>eval_batch_size := int (ds_len example_ds_mixed)\<rparr>"
  let ?L = "[[1, 3], [2, 2], [0, 5], [7, 1], [4, 6]] :: real list list"
  let ?P = "[1, 0, 1, 0, 1] :: nat list"
  have r5: "run_evaluation example_collab_ids ?a5 example_ds_mixed = Inr (5, 4 / 5, 4 / 5)"
    using mixed_run_5 by (simp add: mixed_ds_len)
  have pr: "per_row example_collab_ids example_ds_mixed (data_dir ?a1)
      (\<lambda>i. map real_of_int (t_input_ids example_ds_mixed ! i))"
    using mixed_per_row by (simp add: example_data_dir)
  from accuracy_is_correct_rows_over_total [OF mixed_same_first_dim mixed_run_1] mixed_model_shaped
  obtain batches s logits preds where
    d: "dataloader example_ds_mixed (eval_batch_size ?a1) = Inr batches"
    and l: "eval_loop example_collab_ids (data_dir ?a1) batches init_state = Inr s"
    and fl: "full_logits s = Some logits"
    and am: "np_argmax (Some logits) = Inr preds"
    and first: "\<forall>i < ds_len example_ds_mixed. is_first_argmax (logits ! i) (preds ! i)"
    and c: "(4 / 5 :: real) = real (card {i. i < ds_len example_ds_mixed \<and>
        int (preds ! i) = t_labels example_ds_mixed ! i}) / real (ds_len example_ds_mixed)"
    by blast
  from d have b: "batches = [collate example_ds_mixed [0], collate example_ds_mixed [1],
      collate example_ds_mixed [2], collate example_ds_mixed [3], collate example_ds_mixed [4]]"
    by (simp only: example_data_dir mixed_batches_1 sum.inject)
  from l have "s = \<lparr>eval_loss = 5, eval_accuracy = 4, nb_eval_steps = 5, nb_eval_examples = 5,
        full_logits = Some ?L, full_labels = Some [1, 0, 0, 0, 1]\<rparr>"
    by (simp only: b example_data_dir mixed_loop_1 sum.inject)
  with fl have lg: "logits = ?L" by simp
  with am have ps: "preds = ?P" by (simp add: mixed_argmax)
  from first have "is_first_argmax (logits ! 1) (preds ! 1)" "is_first_argmax (logits ! 4) (preds ! 4)"
    by (simp_all add: mixed_ds_len)
  then have f1: "is_first_argmax [2, 2] 0" and f4: "is_first_argmax [4, 6] 1"
    by (simp_all add: lg ps)
  have tl: "t_labels example_ds_mixed = [1, 0, 0, 0, 1]" by (simp add: example_ds_mixed_def)
  from c have c': "(4 / 5 :: real) =
     real (card {i. i < 5 \<and> int (?P ! i) = [1, 0, 0, 0, 1] ! i}) / real (5 :: nat)"
    by (simp only: mixed_ds_len ps tl)
  show ?thesis
    using mixed_same_first_dim mixed_model_shaped pr mixed_run_1 r5 mixed_argmax f1 f4 c'
    by (intro conjI) assumption+
qed

end
